theory Spec2Isabelle
  imports Main "HOL-Library.Word"
begin

unbundle bit_operations_syntax

section \<open>The multisig wallet of \<^verbatim>\<open>app/main.ts\<close>\<close>

text \<open>
  A shallow embedding of the class \<^verbatim>\<open>MultisigWallet\<close>. The object's private fields are a
  record that every method takes and returns; a \<^verbatim>\<open>throw\<close> (or a rejected promise) is the
  left injection of a sum. JavaScript numbers are modelled as integers, buffers as lists
  of bytes, and \<^verbatim>\<open>async\<close> methods as ordinary functions.
\<close>

subsection \<open>Buffers and errors\<close>

type_synonym byte = "8 word"
type_synonym bytes = "byte list"

text \<open>
  \<^verbatim>\<open>Error msg\<close> is a \<^verbatim>\<open>throw new Error(msg)\<close> written in \<^verbatim>\<open>main.ts\<close>. \<^verbatim>\<open>TypeError\<close> is a type
  error raised by the runtime or by an argument check of a library; \<^verbatim>\<open>LibError\<close> is any
  other exception of a library call.
\<close>

datatype error = Error string | TypeError | LibError

subsection \<open>Script encoding of the library\<close>

text \<open>
  \<^verbatim>\<open>bitcoin.script.compile\<close> and \<^verbatim>\<open>bitcoin.script.decompile\<close> belong to bitcoinjs-lib, which
  the wallet imports. They are written out here as the library implements Bitcoin's
  push encoding: a chunk is an opcode or a buffer; a buffer that has a minimal opcode form
  is written as that opcode, any other buffer as a push of its length and its bytes.
\<close>

datatype chunk = Op byte | Data bytes

definition OP_0 :: byte where "OP_0 = 0"
definition OP_PUSHDATA1 :: byte where "OP_PUSHDATA1 = 76"
definition OP_PUSHDATA2 :: byte where "OP_PUSHDATA2 = 77"
definition OP_PUSHDATA4 :: byte where "OP_PUSHDATA4 = 78"
definition OP_1NEGATE :: byte where "OP_1NEGATE = 79"
definition OP_INT_BASE :: byte where "OP_INT_BASE = 80"
definition OP_1 :: byte where "OP_1 = 81"
definition OP_DUP :: byte where "OP_DUP = 118"
definition OP_EQUALVERIFY :: byte where "OP_EQUALVERIFY = 136"
definition OP_HASH160 :: byte where "OP_HASH160 = 169"
definition OP_CODESEPARATOR :: byte where "OP_CODESEPARATOR = 171"
definition OP_CHECKSIG :: byte where "OP_CHECKSIG = 172"
definition OP_CHECKMULTISIG :: byte where "OP_CHECKMULTISIG = 174"

lemmas opcode_defs =
  OP_0_def OP_PUSHDATA1_def OP_PUSHDATA2_def OP_PUSHDATA4_def OP_1NEGATE_def
  OP_INT_BASE_def OP_1_def OP_DUP_def OP_EQUALVERIFY_def OP_HASH160_def
  OP_CODESEPARATOR_def OP_CHECKSIG_def OP_CHECKMULTISIG_def

text \<open>\<^verbatim>\<open>asMinimalOP\<close>: the opcode that stands for a buffer, if there is one.\<close>

definition asMinimalOP :: "bytes \<Rightarrow> byte option" where
  "asMinimalOP buffer =
     (if length buffer = 0 then Some OP_0
      else if length buffer \<noteq> 1 then None
      else if 1 \<le> hd buffer \<and> hd buffer \<le> 16 then Some (OP_INT_BASE + hd buffer)
      else if hd buffer = 129 then Some OP_1NEGATE
      else None)"

text \<open>Little-endian bytes of a number, \<^verbatim>\<open>k\<close> of them.\<close>

fun le_bytes :: "nat \<Rightarrow> nat \<Rightarrow> bytes" where
  "le_bytes 0 v = []"
| "le_bytes (Suc k) v = of_nat (v mod 256) # le_bytes k (v div 256)"

fun le_nat :: "bytes \<Rightarrow> nat" where
  "le_nat [] = 0"
| "le_nat (b # bs) = unat b + 256 * le_nat bs"

text \<open>\<^verbatim>\<open>pushdata.encode\<close>: the length prefix of a push of \<^verbatim>\<open>n\<close> bytes.\<close>

definition pushdata_encode :: "nat \<Rightarrow> bytes" where
  "pushdata_encode n =
     (if n < 76 then [of_nat n]
      else if n \<le> 255 then [OP_PUSHDATA1, of_nat n]
      else if n \<le> 65535 then OP_PUSHDATA2 # le_bytes 2 n
      else OP_PUSHDATA4 # le_bytes 4 n)"

text \<open>
  \<^verbatim>\<open>pushdata.decode\<close> at the head of the buffer: the number of data bytes and the size of
  the prefix, or \<^verbatim>\<open>None\<close> for the library's \<^verbatim>\<open>null\<close>. It is called on opcodes up to
  \<^verbatim>\<open>OP_PUSHDATA4\<close> only, so the last branch is that opcode.
\<close>

definition pushdata_decode :: "bytes \<Rightarrow> (nat \<times> nat) option" where
  "pushdata_decode buffer =
     (let opcode = hd buffer in
      if opcode < OP_PUSHDATA1 then Some (unat opcode, 1)
      else if opcode = OP_PUSHDATA1 then
        (if 2 > length buffer then None else Some (le_nat (take 1 (drop 1 buffer)), 2))
      else if opcode = OP_PUSHDATA2 then
        (if 3 > length buffer then None else Some (le_nat (take 2 (drop 1 buffer)), 3))
      else
        (if 5 > length buffer then None else Some (le_nat (take 4 (drop 1 buffer)), 5)))"

fun compile_chunk :: "chunk \<Rightarrow> bytes" where
  "compile_chunk (Data d) =
     (case asMinimalOP d of
        Some opcode \<Rightarrow> [opcode]
      | None \<Rightarrow> pushdata_encode (length d) @ d)"
| "compile_chunk (Op opcode) = [opcode]"

definition compile :: "chunk list \<Rightarrow> bytes" where
  "compile chunks = concat (map compile_chunk chunks)"

text \<open>
  \<^verbatim>\<open>decompile\<close> walks the buffer from the left; the model recurses on the bytes that remain.
  The result \<^verbatim>\<open>None\<close> is the library's \<^verbatim>\<open>null\<close>.
\<close>

function decompile :: "bytes \<Rightarrow> chunk list option" where
  "decompile buffer =
     (case buffer of
        [] \<Rightarrow> Some []
      | opcode # rest \<Rightarrow>
          if OP_0 < opcode \<and> opcode \<le> OP_PUSHDATA4 then
            (case pushdata_decode buffer of
               None \<Rightarrow> None
             | Some (number, dsize) \<Rightarrow>
                 if dsize + number > length buffer then None
                 else
                   (let data = take number (drop dsize buffer) in
                    case decompile (drop (dsize + number) buffer) of
                      None \<Rightarrow> None
                    | Some chunks \<Rightarrow>
                        Some ((case asMinimalOP data of
                                 Some opc \<Rightarrow> Op opc
                               | None \<Rightarrow> Data data) # chunks)))
          else
            (case decompile rest of
               None \<Rightarrow> None
             | Some chunks \<Rightarrow> Some (Op opcode # chunks)))"
  by pat_completeness auto
termination
  by (relation "measure length")
     (auto simp: pushdata_decode_def Let_def split: if_splits)

declare decompile.simps [simp del]

subsection \<open>Networks\<close>

text \<open>The fields of \<^verbatim>\<open>bitcoin.networks\<close> that address encoding reads.\<close>

record network =
  bech32 :: string
  pubKeyHash :: nat
  scriptHash :: nat
  wif :: nat

definition networks_bitcoin :: network where
  "networks_bitcoin = \<lparr>bech32 = ''bc'', pubKeyHash = 0, scriptHash = 5, wif = 128\<rparr>"

definition networks_testnet :: network where
  "networks_testnet = \<lparr>bech32 = ''tb'', pubKeyHash = 111, scriptHash = 196, wif = 239\<rparr>"

subsection \<open>The wallet object\<close>

record WalletConfig =
  cfg_network :: "network option"
  cfg_derivationPath :: "string option"

record KeyPairInfo =
  mnemonic :: string
  path :: string
  publicKey :: bytes
  privateKey :: "bytes option"

record AddressSet =
  p2sh :: string
  p2wsh :: string

record MultisigWallet =
  requiredSignatures :: int
  totalSigners :: int
  wnetwork :: network
  derivationPath :: string
  keyPairs :: "KeyPairInfo list"
  redeemScript :: "bytes option"
  addresses :: "AddressSet option"

text \<open>
  The constructor. \<^verbatim>\<open>config.derivationPath || d\<close> takes the default for an absent or an
  empty string. The network of the configuration is not read.
\<close>

definition constructor :: "int \<Rightarrow> int \<Rightarrow> WalletConfig \<Rightarrow> error + MultisigWallet" where
  "constructor requiredSigs totalSigs config =
     (if requiredSigs > totalSigs then Inl (Error ''Invalid signature requirements'')
      else Inr \<lparr>requiredSignatures = requiredSigs,
                totalSigners = totalSigs,
                wnetwork = networks_testnet,
                derivationPath =
                  (case cfg_derivationPath config of
                     None \<Rightarrow> ''m/49'/0'/0'/0''
                   | Some d \<Rightarrow> if d = [] then ''m/49'/0'/0'/0'' else d),
                keyPairs = [],
                redeemScript = None,
                addresses = None\<rparr>)"

definition getRedeemScript :: "MultisigWallet \<Rightarrow> error + bytes" where
  "getRedeemScript w =
     (case redeemScript w of
        None \<Rightarrow> Inl (Error ''Redeem script not initialized'')
      | Some s \<Rightarrow> Inr s)"

definition getAddresses :: "MultisigWallet \<Rightarrow> AddressSet option" where
  "getAddresses w = addresses w"

definition getDerivationPaths :: "MultisigWallet \<Rightarrow> string list" where
  "getDerivationPaths w = map path (keyPairs w)"

definition getPublicKeys :: "MultisigWallet \<Rightarrow> bytes list" where
  "getPublicKeys w = map publicKey (keyPairs w)"

definition getMnemonics :: "MultisigWallet \<Rightarrow> string list" where
  "getMnemonics w = map mnemonic (keyPairs w)"

subsection \<open>The primitives the wallet imports\<close>

text \<open>
  Hashing, key derivation, signing and the address alphabets come from the packages
  \<^verbatim>\<open>bip39\<close>, \<^verbatim>\<open>bip32\<close>, \<^verbatim>\<open>ecpair\<close> and \<^verbatim>\<open>bitcoinjs-lib\<close>. The wallet's own logic does not depend
  on what they compute, so they are the fields of a record that every operation takes.
\<close>

text \<open>
  A derived node shows its public key and, unless it is neutered, its private key. A
  transaction is its version, its lock time, its inputs (previous output, unlocking
  script, sequence number) and its outputs (locking script, amount).
\<close>

record hdnode =
  node_publicKey :: bytes
  node_privateKey :: "bytes option"

record txin =
  in_hash :: bytes
  in_index :: "32 word"
  in_script :: bytes
  in_sequence :: "32 word"

record txout =
  out_script :: bytes
  out_value :: "64 word"

record tx =
  tx_version :: "32 word"
  tx_locktime :: "32 word"
  ins :: "txin list"
  outs :: "txout list"

record provider =
  sha256 :: "bytes \<Rightarrow> bytes"
  hash160 :: "bytes \<Rightarrow> bytes"
  hash256 :: "bytes \<Rightarrow> bytes"
  wordlist :: "nat \<Rightarrow> string"
  mnemonicToSeed :: "string \<Rightarrow> bytes"
  bip32_fromSeed :: "bytes \<Rightarrow> network \<Rightarrow> error + hdnode"
  bip32_derivePath :: "hdnode \<Rightarrow> string \<Rightarrow> error + hdnode"
  isPoint :: "bytes \<Rightarrow> bool"
  isPrivate :: "bytes \<Rightarrow> bool"
  ecSign :: "bytes \<Rightarrow> bytes \<Rightarrow> bytes"
  bs58check_encode :: "bytes \<Rightarrow> string"
  bech32_payload :: "string \<Rightarrow> nat \<Rightarrow> bytes \<Rightarrow> string"
  tx_fromHex :: "string \<Rightarrow> tx option"
  tx_toHex :: "tx \<Rightarrow> string"
  tx_toBuffer :: "tx \<Rightarrow> bytes"

text \<open>
  The secure random source is an unbounded supply of bytes; a call consumes a prefix of
  it and leaves the rest.
\<close>

type_synonym rng = "nat \<Rightarrow> byte"

definition randomBytes :: "nat \<Rightarrow> rng \<Rightarrow> bytes \<times> rng" where
  "randomBytes n r = (map r [0..<n], \<lambda>k. r (k + n))"

subsection \<open>Mnemonic generation of \<^verbatim>\<open>bip39\<close>\<close>

text \<open>
  \<^verbatim>\<open>generateMnemonic(strength)\<close> draws \<^verbatim>\<open>strength / 8\<close> bytes, appends the first
  \<^verbatim>\<open>ENT / 32\<close> bits of their SHA-256 digest, cuts the bit string into groups of eleven and
  looks each group up in the word list; the words are joined by single spaces (the
  default English list is in use). The library rejects an entropy of fewer than 16 or more
  than 32 bytes, or of a length that is no multiple of 4.
\<close>

definition byteBits :: "byte \<Rightarrow> bool list" where
  "byteBits b = map (\<lambda>k. bit b (7 - k)) [0..<8]"

definition bytesToBinary :: "bytes \<Rightarrow> bool list" where
  "bytesToBinary bs = concat (map byteBits bs)"

definition binaryToByte :: "bool list \<Rightarrow> nat" where
  "binaryToByte bin = foldl (\<lambda>acc b. 2 * acc + (if b then 1 else 0)) 0 bin"

definition deriveChecksumBits :: "provider \<Rightarrow> bytes \<Rightarrow> bool list" where
  "deriveChecksumBits p entropy =
     take (length entropy * 8 div 32) (bytesToBinary (sha256 p entropy))"

function chunks11 :: "bool list \<Rightarrow> bool list list" where
  "chunks11 bits = (if bits = [] then [] else take 11 bits # chunks11 (drop 11 bits))"
  by pat_completeness auto
termination
  by (relation "measure length") auto

declare chunks11.simps [simp del]

fun joinWords :: "string list \<Rightarrow> string" where
  "joinWords [] = []"
| "joinWords [w] = w"
| "joinWords (w # ws) = w @ '' '' @ joinWords ws"

definition mnemonicWords :: "provider \<Rightarrow> bytes \<Rightarrow> string list" where
  "mnemonicWords p entropy =
     map (\<lambda>binary. wordlist p (binaryToByte binary))
       (chunks11 (bytesToBinary entropy @ deriveChecksumBits p entropy))"

definition entropyToMnemonic :: "provider \<Rightarrow> bytes \<Rightarrow> error + string" where
  "entropyToMnemonic p entropy =
     (if length entropy < 16 then Inl TypeError
      else if length entropy > 32 then Inl TypeError
      else if length entropy mod 4 \<noteq> 0 then Inl TypeError
      else Inr (joinWords (mnemonicWords p entropy)))"

definition generateMnemonic :: "provider \<Rightarrow> nat \<Rightarrow> rng \<Rightarrow> error + (string \<times> rng)" where
  "generateMnemonic p strength r =
     (let strength = (if strength = 0 then 128 else strength) in
      if strength mod 32 \<noteq> 0 then Inl TypeError
      else
        (case randomBytes (strength div 8) r of
           (entropy, r') \<Rightarrow>
             (case entropyToMnemonic p entropy of
                Inl e \<Rightarrow> Inl e
              | Inr m \<Rightarrow> Inr (m, r'))))"

subsection \<open>Key pairs\<close>

text \<open>The template literal \<^verbatim>\<open>`${index}`\<close> of a non-negative integer: its decimal digits.\<close>

definition digitChar :: "nat \<Rightarrow> char" where
  "digitChar d = ''0123456789'' ! d"

function numberToString :: "nat \<Rightarrow> string" where
  "numberToString n =
     (if n < 10 then [digitChar n] else numberToString (n div 10) @ [digitChar (n mod 10)])"
  by pat_completeness auto
termination
  by (relation "measure id") auto

declare numberToString.simps [simp del]

text \<open>
  \<^verbatim>\<open>generateKeyPair\<close>. The mnemonic is asked for with strength 128, and the path handed to
  the derivation is the index alone. The guard on \<^verbatim>\<open>child.privateKey\<close> throws, so the record
  returned always carries a private key.
\<close>

definition generateKeyPair ::
  "provider \<Rightarrow> MultisigWallet \<Rightarrow> nat \<Rightarrow> rng \<Rightarrow> error + (KeyPairInfo \<times> rng)" where
  "generateKeyPair p w index r =
     (case generateMnemonic p 128 r of
        Inl e \<Rightarrow> Inl e
      | Inr (mn, r') \<Rightarrow>
          (let seed = mnemonicToSeed p mn in
           case bip32_fromSeed p seed (wnetwork w) of
             Inl e \<Rightarrow> Inl e
           | Inr root \<Rightarrow>
               (let pth = numberToString index in
                case bip32_derivePath p root pth of
                  Inl e \<Rightarrow> Inl e
                | Inr child \<Rightarrow>
                    (case node_privateKey child of
                       None \<Rightarrow> Inl (Error ''Failed to generate private key'')
                     | Some sk \<Rightarrow>
                         Inr (\<lparr>mnemonic = mn, path = pth,
                               publicKey = node_publicKey child,
                               privateKey = Some sk\<rparr>, r')))))"

subsection \<open>Redeem script and addresses\<close>

text \<open>
  \<^verbatim>\<open>bitcoin.payments.p2pkh({pubkey}).output\<close>: the pay-to-public-key-hash template over the
  hash of the one key. Without a key, or with a key that is no curve point, the library
  throws a type error.
\<close>

definition p2pkh_output :: "provider \<Rightarrow> bytes option \<Rightarrow> error + bytes" where
  "p2pkh_output p pubkey =
     (case pubkey of
        None \<Rightarrow> Inl TypeError
      | Some pk \<Rightarrow>
          if \<not> isPoint p pk then Inl TypeError
          else Inr (compile [Op OP_DUP, Op OP_HASH160, Data (hash160 p pk),
                             Op OP_EQUALVERIFY, Op OP_CHECKSIG]))"

text \<open>
  \<^verbatim>\<open>payments.p2sh(...).address\<close> is the Base58Check form of the network's script version
  byte followed by the hash of the script; \<^verbatim>\<open>payments.p2wsh(...).address\<close> is the network's
  prefix, the separator \<^verbatim>\<open>1\<close> and the encoded witness version 0 and script hash.
\<close>

definition p2sh_address :: "provider \<Rightarrow> network \<Rightarrow> bytes \<Rightarrow> string" where
  "p2sh_address p net script =
     bs58check_encode p (of_nat (scriptHash net) # hash160 p script)"

definition p2wsh_address :: "provider \<Rightarrow> network \<Rightarrow> bytes \<Rightarrow> string" where
  "p2wsh_address p net script =
     bech32 net @ ''1'' @ bech32_payload p (bech32 net) 0 (sha256 p script)"

text \<open>
  \<^verbatim>\<open>createMultisigAddresses\<close>. The redeem script is the template of the first public key;
  the script hashed for the witness address is a different one, built with \<^verbatim>\<open>OP_1\<close> at both
  numeric positions. The script returned by the template is always a buffer, so the guard
  on \<^verbatim>\<open>redeemScript\<close> never throws; an empty address string is falsy and throws.
\<close>

definition createMultisigAddresses :: "provider \<Rightarrow> MultisigWallet \<Rightarrow> error + MultisigWallet" where
  "createMultisigAddresses p w =
     (let publicKeys = map publicKey (keyPairs w) in
      case p2pkh_output p (case publicKeys of [] \<Rightarrow> None | pk # _ \<Rightarrow> Some pk) of
        Inl e \<Rightarrow> Inl e
      | Inr rs \<Rightarrow>
          (let a_p2sh = p2sh_address p (wnetwork w) rs;
               a_p2wsh = p2wsh_address p (wnetwork w)
                 (compile ([Op OP_1] @ map Data publicKeys @ [Op OP_1, Op OP_CHECKMULTISIG]))
           in
           if a_p2sh = [] \<or> a_p2wsh = [] then Inl (Error ''Failed to generate addresses'')
           else Inr (w\<lparr>redeemScript := Some rs,
                       addresses := Some \<lparr>p2sh = a_p2sh, p2wsh = a_p2wsh\<rparr>\<rparr>)))"

text \<open>
  \<^verbatim>\<open>generateWallet\<close>: the loop over the signer slots \<^verbatim>\<open>0 .. totalSigners - 1\<close>, each key pair
  pushed onto \<^verbatim>\<open>keyPairs\<close>, then the addresses. A throw ends the call; the model returns the
  error alone and not the half-updated object.
\<close>

fun generateKeyPairs ::
  "provider \<Rightarrow> MultisigWallet \<Rightarrow> nat list \<Rightarrow> rng \<Rightarrow> error + (MultisigWallet \<times> rng)" where
  "generateKeyPairs p w [] r = Inr (w, r)"
| "generateKeyPairs p w (i # is) r =
     (case generateKeyPair p w i r of
        Inl e \<Rightarrow> Inl e
      | Inr (keyPair, r') \<Rightarrow>
          generateKeyPairs p (w\<lparr>keyPairs := keyPairs w @ [keyPair]\<rparr>) is r')"

definition generateWallet ::
  "provider \<Rightarrow> MultisigWallet \<Rightarrow> rng \<Rightarrow> error + (MultisigWallet \<times> rng)" where
  "generateWallet p w r =
     (case generateKeyPairs p w [0..<nat (totalSigners w)] r of
        Inl e \<Rightarrow> Inl e
      | Inr (w', r') \<Rightarrow>
          (case createMultisigAddresses p w' of
             Inl e \<Rightarrow> Inl e
           | Inr w'' \<Rightarrow> Inr (w'', r')))"

subsection \<open>Signing a transaction input\<close>

definition SIGHASH_ALL :: nat where "SIGHASH_ALL = 1"
definition SIGHASH_NONE :: nat where "SIGHASH_NONE = 2"
definition SIGHASH_SINGLE :: nat where "SIGHASH_SINGLE = 3"
definition SIGHASH_ANYONECANPAY :: nat where "SIGHASH_ANYONECANPAY = 128"

definition ONE :: bytes where
  "ONE = replicate 31 0 @ [1]"

definition BLANK_OUTPUT :: txout where
  "BLANK_OUTPUT = \<lparr>out_script = [], out_value = - 1\<rparr>"

text \<open>Every input but the one at \<^verbatim>\<open>inIndex\<close> gets the sequence number 0.\<close>

definition zeroOtherSequences :: "nat \<Rightarrow> txin list \<Rightarrow> txin list" where
  "zeroOtherSequences inIndex xs =
     map (\<lambda>(y, input). if y = inIndex then input else input\<lparr>in_sequence := 0\<rparr>)
       (enumerate 0 xs)"

text \<open>
  \<^verbatim>\<open>Transaction.hashForSignature\<close> of bitcoinjs-lib, the legacy signature digest. Its argument
  check wants an unsigned 32-bit index and a buffer; an index past the last input gives the
  constant \<^verbatim>\<open>ONE\<close>. With \<^verbatim>\<open>SIGHASH_NONE\<close> the copy that is serialised has no outputs at all;
  with \<^verbatim>\<open>SIGHASH_ALL\<close> it keeps every output.
\<close>

definition hashForSignature ::
  "provider \<Rightarrow> tx \<Rightarrow> int \<Rightarrow> bytes option \<Rightarrow> nat \<Rightarrow> error + bytes" where
  "hashForSignature p t inIndex prevOutScript hashType =
     (if inIndex < 0 \<or> 2 ^ 32 \<le> inIndex then Inl TypeError
      else
        (case prevOutScript of
           None \<Rightarrow> Inl TypeError
         | Some script \<Rightarrow>
             if nat inIndex \<ge> length (ins t) then Inr ONE
             else
               (case decompile script of
                  None \<Rightarrow> Inl TypeError
                | Some chunks \<Rightarrow>
                    (let i = nat inIndex;
                         ourScript = compile (filter (\<lambda>x. x \<noteq> Op OP_CODESEPARATOR) chunks);
                         single = (hashType AND 31 = SIGHASH_SINGLE);
                         txTmp =
                           (if hashType AND 31 = SIGHASH_NONE then
                              t\<lparr>outs := [], ins := zeroOtherSequences i (ins t)\<rparr>
                            else if single then
                              t\<lparr>outs := replicate i BLANK_OUTPUT @ take 1 (drop i (outs t)),
                                ins := zeroOtherSequences i (ins t)\<rparr>
                            else t);
                         txTmp2 =
                           (if hashType AND SIGHASH_ANYONECANPAY \<noteq> 0 then
                              txTmp\<lparr>ins := [(ins txTmp ! i)\<lparr>in_script := ourScript\<rparr>]\<rparr>
                            else
                              txTmp\<lparr>ins := (map (\<lambda>input. input\<lparr>in_script := []\<rparr>) (ins txTmp))
                                       [i := (ins txTmp ! i)\<lparr>in_script := ourScript\<rparr>]\<rparr>)
                     in
                     if single \<and> i \<ge> length (outs t) then Inr ONE
                     else Inr (hash256 p (tx_toBuffer p txTmp2 @ le_bytes 4 hashType))))))"

text \<open>\<^verbatim>\<open>setInputScript\<close>: assigning through a missing array element is a runtime type error.\<close>

definition setInputScript :: "tx \<Rightarrow> int \<Rightarrow> bytes \<Rightarrow> error + tx" where
  "setInputScript t index scriptSig =
     (if 0 \<le> index \<and> nat index < length (ins t)
      then Inr (t\<lparr>ins := (ins t)[nat index := (ins t ! nat index)\<lparr>in_script := scriptSig\<rparr>]\<rparr>)
      else Inl TypeError)"

text \<open>
  \<^verbatim>\<open>signTransaction\<close>. Beside its result the model returns the cryptographic calls made, in
  order, so that what ran before a throw can be read off. The hash type is the constant
  \<^verbatim>\<open>SIGHASH_NONE\<close>; the digest is taken first, the private key is looked at second, the
  input index is never compared with the number of inputs; the script stored is the bare
  signature followed by the signer's public key.
\<close>

datatype crypto_call = CallHashForSignature | CallSign

definition signTransaction ::
  "provider \<Rightarrow> MultisigWallet \<Rightarrow> string \<Rightarrow> int \<Rightarrow> KeyPairInfo
     \<Rightarrow> (error + string) \<times> crypto_call list" where
  "signTransaction p w txHex inputIndex keyPair =
     (case tx_fromHex p txHex of
        None \<Rightarrow> (Inl LibError, [])
      | Some t \<Rightarrow>
          (let hashType = SIGHASH_NONE in
           case hashForSignature p t inputIndex (redeemScript w) hashType of
             Inl e \<Rightarrow> (Inl e, [CallHashForSignature])
           | Inr signatureHash \<Rightarrow>
               (case privateKey keyPair of
                  None \<Rightarrow> (Inl (Error ''Private key not found''), [CallHashForSignature])
                | Some sk \<Rightarrow>
                    if \<not> isPrivate p sk then (Inl TypeError, [CallHashForSignature])
                    else
                      (let signature = ecSign p sk signatureHash in
                       case setInputScript t inputIndex
                              (compile [Data signature, Data (publicKey keyPair)]) of
                         Inl e \<Rightarrow> (Inl e, [CallHashForSignature, CallSign])
                       | Inr t' \<Rightarrow>
                           (Inr (tx_toHex p t'), [CallHashForSignature, CallSign])))))"

subsection \<open>What the test suite measures\<close>

text \<open>Byte-wise lexicographic order of buffers, as \<^verbatim>\<open>Buffer.compare\<close> decides it.\<close>

fun bytes_le :: "bytes \<Rightarrow> bytes \<Rightarrow> bool" where
  "bytes_le [] ys = True"
| "bytes_le (x # xs) [] = False"
| "bytes_le (x # xs) (y # ys) = (x < y \<or> (x = y \<and> bytes_le xs ys))"

text \<open>
  \<^verbatim>\<open>mnemonic.split(" ")\<close>, with which the test suite counts the words of a mnemonic: the
  pieces between single spaces.
\<close>

fun split_space :: "string \<Rightarrow> string list" where
  "split_space [] = [[]]"
| "split_space (c # cs) =
     (if c = CHR '' '' then [] # split_space cs
      else (case split_space cs of
              [] \<Rightarrow> [[c]]
            | piece # pieces \<Rightarrow> (c # piece) # pieces))"

subsection \<open>The redeem script of the specification\<close>

text \<open>
  For comparison with what the code builds: the element sequence that the specification
  gives for the redeem script of an \<open>m\<close>-of-\<open>n\<close> policy over the keys \<open>pks\<close>, the numeric
  opcodes being \<^verbatim>\<open>OP_1\<close> to \<^verbatim>\<open>OP_16\<close>.
\<close>

definition spec_redeemChunks :: "int \<Rightarrow> bytes list \<Rightarrow> int \<Rightarrow> chunk list" where
  "spec_redeemChunks m pks n =
     [Op (OP_INT_BASE + of_int m)] @ map Data pks @
     [Op (OP_INT_BASE + of_int n), Op OP_CHECKMULTISIG]"

section \<open>A stand-in for the primitives, for evaluation\<close>

text \<open>
  The theorems below hold for every record of primitives and every random source. To run
  the model on a concrete input, the following record stands in for the libraries: its
  hashes cut or pad their argument to the right length, the word list has one-letter
  words, a derived key is read off the seed, and the transaction codec knows the one
  transaction \<open>demo_tx\<close>, which has the shape of the test suite's \<^verbatim>\<open>dummyTx\<close> (one input,
  one output). The wallet \<open>demo_wallet\<close> is what \<^verbatim>\<open>new MultisigWallet(2, 3)\<close> and
  \<^verbatim>\<open>generateWallet()\<close> give with these primitives and the random bytes \<open>0, 1, 2, \<dots>\<close>.
\<close>

definition demo_tx :: tx where
  "demo_tx =
     \<lparr>tx_version = 1, tx_locktime = 0,
      ins = [\<lparr>in_hash = replicate 32 170, in_index = 0, in_script = [],
              in_sequence = 4294967295\<rparr>],
      outs = [\<lparr>out_script = replicate 20 0, out_value = 100000\<rparr>]\<rparr>"

definition demo_provider :: provider where
  "demo_provider =
     \<lparr>sha256 = (\<lambda>bs. take 32 (bs @ replicate 32 0)),
      hash160 = (\<lambda>bs. take 20 (bs @ replicate 20 0)),
      hash256 = (\<lambda>bs. take 32 (bs @ replicate 32 0)),
      wordlist = (\<lambda>i. [''abcdefghijklmnopqrstuvwxyz'' ! (i mod 26)]),
      mnemonicToSeed = (\<lambda>m. map (\<lambda>c. of_nat (of_char c)) m),
      bip32_fromSeed = (\<lambda>seed net.
         Inr \<lparr>node_publicKey = 2 # take 32 (seed @ replicate 32 0),
              node_privateKey = Some (take 32 (seed @ replicate 32 0))\<rparr>),
      bip32_derivePath = (\<lambda>node pth. Inr node),
      isPoint = (\<lambda>pk. length pk = 33),
      isPrivate = (\<lambda>sk. length sk = 32),
      ecSign = (\<lambda>sk d. take 64 (d @ sk @ replicate 64 0)),
      bs58check_encode = (\<lambda>payload. ''x''),
      bech32_payload = (\<lambda>hrp v prog. ''q''),
      tx_fromHex = (\<lambda>h. if h = ''dummyTx'' then Some demo_tx else None),
      tx_toHex = (\<lambda>t. ''signed''),
      tx_toBuffer = (\<lambda>t. concat (map in_script (ins t)) @ [of_nat (length (outs t))]
                          @ concat (map out_script (outs t)))\<rparr>"

definition demo_rng :: rng where "demo_rng k = of_nat k"

definition demo_config :: WalletConfig where
  "demo_config = \<lparr>cfg_network = None, cfg_derivationPath = None\<rparr>"

definition demo_wallet0 :: MultisigWallet where
  "demo_wallet0 = \<lparr>requiredSignatures = 2, totalSigners = 3, wnetwork = networks_testnet,
      derivationPath = ''m/49'/0'/0'/0'', keyPairs = [], redeemScript = None, addresses = None\<rparr>"

definition mainnet_config :: WalletConfig where
  "mainnet_config = \<lparr>cfg_network = Some networks_bitcoin, cfg_derivationPath = None\<rparr>"

definition demo_keyPair0 :: KeyPairInfo where
  "demo_keyPair0 =
     \<lparr>mnemonic = ''a m q m t c x g k r u g'', path = ''0'',
      publicKey = [2, 97, 32, 109, 32, 113, 32, 109, 32, 116, 32, 99, 32, 120, 32, 103, 32,
                   107, 32, 114, 32, 117, 32, 103, 0, 0, 0, 0, 0, 0, 0, 0, 0],
      privateKey = Some [97, 32, 109, 32, 113, 32, 109, 32, 116, 32, 99, 32, 120, 32, 103, 32,
                   107, 32, 114, 32, 117, 32, 103, 0, 0, 0, 0, 0, 0, 0, 0, 0]\<rparr>"

definition demo_keyPair1 :: KeyPairInfo where
  "demo_keyPair1 =
     \<lparr>mnemonic = ''y a w j b o r w i f a d'', path = ''1'',
      publicKey = [2, 121, 32, 97, 32, 119, 32, 106, 32, 98, 32, 111, 32, 114, 32, 119, 32,
                   105, 32, 102, 32, 97, 32, 100, 0, 0, 0, 0, 0, 0, 0, 0, 0],
      privateKey = Some [121, 32, 97, 32, 119, 32, 106, 32, 98, 32, 111, 32, 114, 32, 119, 32,
                   105, 32, 102, 32, 97, 32, 100, 0, 0, 0, 0, 0, 0, 0, 0, 0]\<rparr>"

definition demo_keyPair2 :: KeyPairInfo where
  "demo_keyPair2 =
     \<lparr>mnemonic = ''x u c g j a l m h z g a'', path = ''2'',
      publicKey = [2, 120, 32, 117, 32, 99, 32, 103, 32, 106, 32, 97, 32, 108, 32, 109, 32,
                   104, 32, 122, 32, 103, 32, 97, 0, 0, 0, 0, 0, 0, 0, 0, 0],
      privateKey = Some [120, 32, 117, 32, 99, 32, 103, 32, 106, 32, 97, 32, 108, 32, 109, 32,
                   104, 32, 122, 32, 103, 32, 97, 0, 0, 0, 0, 0, 0, 0, 0, 0]\<rparr>"

definition demo_redeemScript :: bytes where
  "demo_redeemScript =
     [118, 169, 20, 2, 97, 32, 109, 32, 113, 32, 109, 32, 116, 32, 99, 32, 120, 32, 103, 32,
      107, 32, 114, 136, 172]"

definition demo_wallet :: MultisigWallet where
  "demo_wallet = demo_wallet0
     \<lparr>keyPairs := [demo_keyPair0, demo_keyPair1, demo_keyPair2],
      redeemScript := Some demo_redeemScript,
      addresses := Some \<lparr>p2sh = ''x'', p2wsh = ''tb1q''\<rparr>\<rparr>"

text \<open>
  \<open>demo_wallet_again\<close> is \<open>demo_wallet\<close> after a second \<^verbatim>\<open>generateWallet()\<close> fed with the same
  random bytes: three more key pairs are pushed and the script of the first key is cached
  again.
\<close>

definition demo_wallet_again :: MultisigWallet where
  "demo_wallet_again = demo_wallet
     \<lparr>keyPairs := [demo_keyPair0, demo_keyPair1, demo_keyPair2,
                   demo_keyPair0, demo_keyPair1, demo_keyPair2]\<rparr>"

definition demo_digest :: bytes where
  "demo_digest =
     [118, 169, 20, 2, 97, 32, 109, 32, 113, 32, 109, 32, 116, 32, 99, 32, 120, 32, 103, 32,
      107, 32, 114, 136, 172, 0, 2, 0, 0, 0, 0, 0]"

definition demo_signature :: bytes where
  "demo_signature = demo_digest @
     [97, 32, 109, 32, 113, 32, 109, 32, 116, 32, 99, 32, 120, 32, 103, 32,
      107, 32, 114, 32, 117, 32, 103, 0, 0, 0, 0, 0, 0, 0, 0, 0]"

section \<open>Properties of the script encoding and of key generation\<close>

lemma asMinimalOP_long: "2 \<le> length d \<Longrightarrow> asMinimalOP d = None"
  by (cases d) (auto simp: asMinimalOP_def)

lemma decompile_Nil: "decompile [] = Some []"
  by (simp add: decompile.simps)

lemma decompile_opcode:
  assumes "\<not> (OP_0 < opc \<and> opc \<le> OP_PUSHDATA4)"
  shows "decompile (opc # rest) =
     (case decompile rest of None \<Rightarrow> None | Some cs \<Rightarrow> Some (Op opc # cs))"
  by (subst decompile.simps) (simp only: list.case assms if_False)

lemma small_push_byte:
  assumes "0 < n" "n < 76"
  shows "OP_0 < (of_nat n :: byte)" "(of_nat n :: byte) \<le> OP_PUSHDATA4"
    "(of_nat n :: byte) < OP_PUSHDATA1" "unat (of_nat n :: byte) = n"
  using assms by (simp_all add: opcode_defs word_less_nat_alt word_le_nat_alt unat_of_nat)

lemma decompile_push:
  assumes "2 \<le> length d" "length d < 76"
  shows "decompile (of_nat (length d) # d @ rest) =
     (case decompile rest of None \<Rightarrow> None | Some cs \<Rightarrow> Some (Data d # cs))"
proof -
  have ne: "d \<noteq> []" using assms by (cases d) simp_all
  then have n: "0 < length d" by simp
  note sp = small_push_byte [OF n assms(2)]
  show ?thesis
    by (subst decompile.simps)
       (simp add: sp ne pushdata_decode_def asMinimalOP_long [OF assms(1)] split: option.split
          del: of_nat_numeral)
qed

lemma compile_Cons: "compile (c # cs) = compile_chunk c @ compile cs"
  by (simp add: compile_def)

lemma compile_Nil: "compile [] = []"
  by (simp add: compile_def)

lemma compile_push:
  "2 \<le> length d \<Longrightarrow> length d < 76 \<Longrightarrow> compile_chunk (Data d) = of_nat (length d) # d"
  by (simp add: asMinimalOP_long pushdata_encode_def)

lemma decompile_p2pkh:
  assumes "length h = 20"
  shows "decompile (compile [Op OP_DUP, Op OP_HASH160, Data h, Op OP_EQUALVERIFY, Op OP_CHECKSIG])
         = Some [Op OP_DUP, Op OP_HASH160, Data h, Op OP_EQUALVERIFY, Op OP_CHECKSIG]"
proof -
  have ops: "\<not> (OP_0 < OP_DUP \<and> OP_DUP \<le> OP_PUSHDATA4)"
    "\<not> (OP_0 < OP_HASH160 \<and> OP_HASH160 \<le> OP_PUSHDATA4)"
    "\<not> (OP_0 < OP_EQUALVERIFY \<and> OP_EQUALVERIFY \<le> OP_PUSHDATA4)"
    "\<not> (OP_0 < OP_CHECKSIG \<and> OP_CHECKSIG \<le> OP_PUSHDATA4)"
    by (simp_all add: opcode_defs)
  have h: "2 \<le> length h" "length h < 76" using assms by simp_all
  show ?thesis
    by (simp add: compile_Cons compile_Nil compile_push [OF h] decompile_opcode [OF ops(1)]
        decompile_opcode [OF ops(2)] decompile_opcode [OF ops(3)] decompile_opcode [OF ops(4)]
        decompile_push [OF h] decompile_Nil del: of_nat_numeral compile_chunk.simps(1))
qed

lemma decompile_two_pushes:
  assumes "2 \<le> length a" "length a < 76" "2 \<le> length b" "length b < 76"
  shows "decompile (compile [Data a, Data b]) = Some [Data a, Data b]"
  using decompile_push [OF assms(3,4), of "[]"]
  by (simp add: compile_Cons compile_Nil compile_push [OF assms(1,2)]
      compile_push [OF assms(3,4)] decompile_push [OF assms(1,2)] decompile_Nil
      del: compile_chunk.simps)

lemma generateKeyPair_Inr:
  assumes "generateKeyPair p w i r = Inr (kp, r')"
  shows "path kp = numberToString i"
    and "mnemonic kp = joinWords (mnemonicWords p (map r [0..<16]))"
    and "r' = (\<lambda>k. r (k + 16))"
    and "privateKey kp \<noteq> None"
  using assms
  by (auto simp: generateKeyPair_def generateMnemonic_def randomBytes_def
      entropyToMnemonic_def Let_def split: sum.splits option.splits prod.splits if_splits)

lemma generateKeyPair_keyPairs_irrelevant:
  "generateKeyPair p (w\<lparr>keyPairs := ks\<rparr>) i r = generateKeyPair p w i r"
  by (simp add: generateKeyPair_def split: sum.splits prod.splits)

lemma generateKeyPairs_Inr:
  assumes "generateKeyPairs p w xs r = Inr (w', r')"
  shows "\<exists>kps. w' = w\<lparr>keyPairs := keyPairs w @ kps\<rparr> \<and> length kps = length xs \<and>
           r' = (\<lambda>j. r (j + 16 * length xs)) \<and>
           (\<forall>k<length xs. generateKeyPair p w (xs ! k) (\<lambda>j. r (j + 16 * k))
               = Inr (kps ! k, \<lambda>j. r (j + 16 * Suc k)))"
  using assms
proof (induction xs arbitrary: w r)
  case Nil
  then show ?case by simp
next
  case (Cons i xs)
  from Cons.prems obtain kp r1 where
    g: "generateKeyPair p w i r = Inr (kp, r1)" and
    rest: "generateKeyPairs p (w\<lparr>keyPairs := keyPairs w @ [kp]\<rparr>) xs r1 = Inr (w', r')"
    by (auto split: sum.splits)
  have r1: "r1 = (\<lambda>k. r (k + 16))" using generateKeyPair_Inr(3) [OF g] .
  from Cons.IH [OF rest] obtain kps where
    w': "w' = w\<lparr>keyPairs := keyPairs w @ kp # kps\<rparr>" and
    len: "length kps = length xs" and
    r': "r' = (\<lambda>j. r1 (j + 16 * length xs))" and
    each: "\<forall>k<length xs. generateKeyPair p w (xs ! k) (\<lambda>j. r1 (j + 16 * k))
               = Inr (kps ! k, \<lambda>j. r1 (j + 16 * Suc k))"
    by (auto simp: generateKeyPair_keyPairs_irrelevant)
  have "\<forall>k<length (i # xs). generateKeyPair p w ((i # xs) ! k) (\<lambda>j. r (j + 16 * k))
               = Inr ((kp # kps) ! k, \<lambda>j. r (j + 16 * Suc k))"
  proof (intro allI impI)
    fix k assume k: "k < length (i # xs)"
    show "generateKeyPair p w ((i # xs) ! k) (\<lambda>j. r (j + 16 * k))
               = Inr ((kp # kps) ! k, \<lambda>j. r (j + 16 * Suc k))"
    proof (cases k)
      case 0
      then show ?thesis using g r1 by simp
    next
      case (Suc k')
      then have "k' < length xs" using k by simp
      with each have "generateKeyPair p w (xs ! k') (\<lambda>j. r1 (j + 16 * k'))
               = Inr (kps ! k', \<lambda>j. r1 (j + 16 * Suc k'))" by blast
      then show ?thesis using Suc by (simp add: r1 ac_simps)
    qed
  qed
  moreover have "r' = (\<lambda>j. r (j + 16 * length (i # xs)))"
    by (simp add: r' r1 ac_simps)
  ultimately show ?case using w' len by (intro exI [of _ "kp # kps"]) simp
qed

lemma length_chunks11: "length (chunks11 bits) = (length bits + 10) div 11"
proof (induction bits rule: chunks11.induct)
  case (1 bits)
  show ?case
  proof (cases "bits = []")
    case True
    then show ?thesis by (simp add: chunks11.simps)
  next
    case False
    then have pos: "0 < length bits" by simp
    have "length (chunks11 bits) = Suc (length (chunks11 (drop 11 bits)))"
      using False by (subst chunks11.simps) simp
    also have "\<dots> = Suc ((length bits - 11 + 10) div 11)"
      using 1 [OF False] by simp
    also have "\<dots> = (length bits + 10) div 11"
    proof (cases "11 \<le> length bits")
      case True
      then have "length bits + 10 = (length bits - 11 + 10) + 11" by simp
      then have "(length bits + 10) div 11 = (length bits - 11 + 10) div 11 + 1"
        by (simp only: div_add_self2)
      then show ?thesis by simp
    next
      case False
      then have "length bits - 11 + 10 = 10" by simp
      moreover have "length bits + 10 = (length bits - 1) + 11"
        using pos by simp
      then have "(length bits + 10) div 11 = (length bits - 1) div 11 + 1"
        by (simp only: div_add_self2)
      moreover have "(length bits - 1) div 11 = 0"
        using False by simp
      ultimately show ?thesis by simp
    qed
    finally show ?thesis .
  qed
qed

lemma length_byteBits: "length (byteBits b) = 8"
  by (simp add: byteBits_def)

lemma length_bytesToBinary: "length (bytesToBinary bs) = 8 * length bs"
  by (induction bs) (simp_all add: bytesToBinary_def length_byteBits)

lemma length_mnemonicWords_16:
  assumes "length entropy = 16"
  shows "length (mnemonicWords p entropy) = 12"
proof -
  let ?c = "length (deriveChecksumBits p entropy)"
  have "?c \<le> 4" using assms by (simp add: deriveChecksumBits_def)
  then have "(128 + ?c + 10) div 11 = 12" by simp
  then show ?thesis
    using assms by (simp add: mnemonicWords_def length_chunks11 length_bytesToBinary)
qed

lemma createMultisigAddresses_Inr:
  assumes "createMultisigAddresses p w = Inr w'"
  shows "\<exists>pk rest. map publicKey (keyPairs w) = pk # rest \<and>
           w' = w\<lparr>redeemScript :=
                     Some (compile [Op OP_DUP, Op OP_HASH160, Data (hash160 p pk),
                                    Op OP_EQUALVERIFY, Op OP_CHECKSIG]),
                   addresses :=
                     Some \<lparr>p2sh = p2sh_address p (wnetwork w)
                              (compile [Op OP_DUP, Op OP_HASH160, Data (hash160 p pk),
                                        Op OP_EQUALVERIFY, Op OP_CHECKSIG]),
                           p2wsh = p2wsh_address p (wnetwork w)
                              (compile ([Op OP_1] @ map Data (pk # rest) @
                                        [Op OP_1, Op OP_CHECKMULTISIG]))\<rparr>\<rparr>"
  using assms
  by (auto simp: createMultisigAddresses_def p2pkh_output_def Let_def
      split: sum.splits list.splits option.splits if_splits)

lemma generateWallet_Inr_ex:
  assumes "generateWallet p w r = Inr (w', r')"
  shows "\<exists>kps. keyPairs w' = keyPairs w @ kps \<and> length kps = nat (totalSigners w) \<and>
           keyPairs w' \<noteq> [] \<and>
           r' = (\<lambda>j. r (j + 16 * nat (totalSigners w))) \<and>
           (\<forall>k<nat (totalSigners w). generateKeyPair p w k (\<lambda>j. r (j + 16 * k))
               = Inr (kps ! k, \<lambda>j. r (j + 16 * Suc k))) \<and>
           w' = w\<lparr>keyPairs := keyPairs w',
                   redeemScript :=
                     Some (compile [Op OP_DUP, Op OP_HASH160,
                                    Data (hash160 p (hd (map publicKey (keyPairs w')))),
                                    Op OP_EQUALVERIFY, Op OP_CHECKSIG]),
                   addresses :=
                     Some \<lparr>p2sh = p2sh_address p (wnetwork w)
                              (compile [Op OP_DUP, Op OP_HASH160,
                                        Data (hash160 p (hd (map publicKey (keyPairs w')))),
                                        Op OP_EQUALVERIFY, Op OP_CHECKSIG]),
                           p2wsh = p2wsh_address p (wnetwork w)
                              (compile ([Op OP_1] @ map Data (map publicKey (keyPairs w')) @
                                        [Op OP_1, Op OP_CHECKMULTISIG]))\<rparr>\<rparr>"
proof -
  from assms obtain w1 where
    g: "generateKeyPairs p w [0..<nat (totalSigners w)] r = Inr (w1, r')" and
    c: "createMultisigAddresses p w1 = Inr w'"
    by (auto simp: generateWallet_def split: sum.splits)
  from generateKeyPairs_Inr [OF g] obtain kps where
    w1: "w1 = w\<lparr>keyPairs := keyPairs w @ kps\<rparr>" and
    len: "length kps = nat (totalSigners w)" and
    r': "r' = (\<lambda>j. r (j + 16 * nat (totalSigners w)))" and
    each: "\<forall>k<nat (totalSigners w). generateKeyPair p w k (\<lambda>j. r (j + 16 * k))
               = Inr (kps ! k, \<lambda>j. r (j + 16 * Suc k))"
    by auto
  from createMultisigAddresses_Inr [OF c] obtain pk rest where
    pks: "map publicKey (keyPairs w1) = pk # rest" and
    w': "w' = w1\<lparr>redeemScript :=
                     Some (compile [Op OP_DUP, Op OP_HASH160, Data (hash160 p pk),
                                    Op OP_EQUALVERIFY, Op OP_CHECKSIG]),
                   addresses :=
                     Some \<lparr>p2sh = p2sh_address p (wnetwork w1)
                              (compile [Op OP_DUP, Op OP_HASH160, Data (hash160 p pk),
                                        Op OP_EQUALVERIFY, Op OP_CHECKSIG]),
                           p2wsh = p2wsh_address p (wnetwork w1)
                              (compile ([Op OP_1] @ map Data (pk # rest) @
                                        [Op OP_1, Op OP_CHECKMULTISIG]))\<rparr>\<rparr>"
    by (elim exE conjE)
  have kp': "keyPairs w' = keyPairs w @ kps" using w1 w' by simp
  have pks': "map publicKey (keyPairs w') = pk # rest" using pks w' by simp
  have hd: "hd (map publicKey (keyPairs w')) = pk" by (simp only: pks' list.sel)
  have net: "wnetwork w1 = wnetwork w" using w1 by simp
  have "keyPairs w' \<noteq> []" using pks' by auto
  moreover have "w' = w\<lparr>keyPairs := keyPairs w',
                   redeemScript :=
                     Some (compile [Op OP_DUP, Op OP_HASH160,
                                    Data (hash160 p (hd (map publicKey (keyPairs w')))),
                                    Op OP_EQUALVERIFY, Op OP_CHECKSIG]),
                   addresses :=
                     Some \<lparr>p2sh = p2sh_address p (wnetwork w)
                              (compile [Op OP_DUP, Op OP_HASH160,
                                        Data (hash160 p (hd (map publicKey (keyPairs w')))),
                                        Op OP_EQUALVERIFY, Op OP_CHECKSIG]),
                           p2wsh = p2wsh_address p (wnetwork w)
                              (compile ([Op OP_1] @ map Data (map publicKey (keyPairs w')) @
                                        [Op OP_1, Op OP_CHECKMULTISIG]))\<rparr>\<rparr>"
    by (subst w') (simp only: hd pks' net, simp add: w1 kp')
  ultimately show ?thesis
    using kp' len r' each by (intro exI [of _ kps]) blast
qed

lemma generateWallet_Inr:
  assumes "generateWallet p w r = Inr (w', r')"
  shows "keyPairs w' \<noteq> []"
    and "length (keyPairs w') = length (keyPairs w) + nat (totalSigners w)"
    and "take (length (keyPairs w)) (keyPairs w') = keyPairs w"
    and "r' = (\<lambda>j. r (j + 16 * nat (totalSigners w)))"
    and "wnetwork w' = wnetwork w"
    and "redeemScript w' =
           Some (compile [Op OP_DUP, Op OP_HASH160,
                          Data (hash160 p (hd (map publicKey (keyPairs w')))),
                          Op OP_EQUALVERIFY, Op OP_CHECKSIG])"
    and "addresses w' =
           Some \<lparr>p2sh = p2sh_address p (wnetwork w)
                    (compile [Op OP_DUP, Op OP_HASH160,
                              Data (hash160 p (hd (map publicKey (keyPairs w')))),
                              Op OP_EQUALVERIFY, Op OP_CHECKSIG]),
                 p2wsh = p2wsh_address p (wnetwork w)
                    (compile ([Op OP_1] @ map Data (map publicKey (keyPairs w')) @
                              [Op OP_1, Op OP_CHECKMULTISIG]))\<rparr>"
proof -
  from generateWallet_Inr_ex [OF assms] obtain kps where
    kp: "keyPairs w' = keyPairs w @ kps" and len: "length kps = nat (totalSigners w)" and
    ne: "keyPairs w' \<noteq> []" and
    r': "r' = (\<lambda>j. r (j + 16 * nat (totalSigners w)))" and
    each: "\<forall>k<nat (totalSigners w). generateKeyPair p w k (\<lambda>j. r (j + 16 * k))
               = Inr (kps ! k, \<lambda>j. r (j + 16 * Suc k))" and
    w': "w' = w\<lparr>keyPairs := keyPairs w',
                   redeemScript :=
                     Some (compile [Op OP_DUP, Op OP_HASH160,
                                    Data (hash160 p (hd (map publicKey (keyPairs w')))),
                                    Op OP_EQUALVERIFY, Op OP_CHECKSIG]),
                   addresses :=
                     Some \<lparr>p2sh = p2sh_address p (wnetwork w)
                              (compile [Op OP_DUP, Op OP_HASH160,
                                        Data (hash160 p (hd (map publicKey (keyPairs w')))),
                                        Op OP_EQUALVERIFY, Op OP_CHECKSIG]),
                           p2wsh = p2wsh_address p (wnetwork w)
                              (compile ([Op OP_1] @ map Data (map publicKey (keyPairs w')) @
                                        [Op OP_1, Op OP_CHECKMULTISIG]))\<rparr>\<rparr>"
    by (elim exE conjE)
  show "keyPairs w' \<noteq> []" by (rule ne)
  show "length (keyPairs w') = length (keyPairs w) + nat (totalSigners w)"
    using kp len by simp
  show "take (length (keyPairs w)) (keyPairs w') = keyPairs w" using kp by simp
  show "r' = (\<lambda>j. r (j + 16 * nat (totalSigners w)))" by (rule r')
  show "wnetwork w' = wnetwork w" by (subst w') simp
  show "redeemScript w' =
           Some (compile [Op OP_DUP, Op OP_HASH160,
                          Data (hash160 p (hd (map publicKey (keyPairs w')))),
                          Op OP_EQUALVERIFY, Op OP_CHECKSIG])"
    by (subst w') simp
  show "addresses w' =
           Some \<lparr>p2sh = p2sh_address p (wnetwork w)
                    (compile [Op OP_DUP, Op OP_HASH160,
                              Data (hash160 p (hd (map publicKey (keyPairs w')))),
                              Op OP_EQUALVERIFY, Op OP_CHECKSIG]),
                 p2wsh = p2wsh_address p (wnetwork w)
                    (compile ([Op OP_1] @ map Data (map publicKey (keyPairs w')) @
                              [Op OP_1, Op OP_CHECKMULTISIG]))\<rparr>"
    by (subst w') simp
qed

lemma generateWallet_Inr_nth:
  assumes "generateWallet p w r = Inr (w', r')" and "k < nat (totalSigners w)"
  shows "generateKeyPair p w k (\<lambda>j. r (j + 16 * k))
           = Inr (keyPairs w' ! (length (keyPairs w) + k), \<lambda>j. r (j + 16 * Suc k))"
proof -
  from generateWallet_Inr_ex [OF assms(1)] obtain kps where
    kp: "keyPairs w' = keyPairs w @ kps" and
    each: "\<forall>k<nat (totalSigners w). generateKeyPair p w k (\<lambda>j. r (j + 16 * k))
               = Inr (kps ! k, \<lambda>j. r (j + 16 * Suc k))"
    by blast
  show ?thesis using each assms(2) by (simp add: kp)
qed

lemma constructor_Inr:
  assumes "constructor m n cfg = Inr w"
  shows "m \<le> n" "requiredSignatures w = m" "totalSigners w = n" "wnetwork w = networks_testnet"
    "keyPairs w = []" "redeemScript w = None" "addresses w = None"
  using assms by (auto simp: constructor_def split: if_splits)

section \<open>The stand-in wallet evaluated\<close>

lemma demo_constructor: "constructor 2 3 demo_config = Inr demo_wallet0"
  by (simp add: constructor_def demo_config_def demo_wallet0_def)

lemma demo_constructor_mainnet: "constructor 2 3 mainnet_config = Inr demo_wallet0"
  by (simp add: constructor_def mainnet_config_def demo_wallet0_def)

lemma demo_generate_fst:
  "map_sum id fst (generateWallet demo_provider demo_wallet0 demo_rng) = Inr demo_wallet"
  by code_simp

lemma demo_generateWallet:
  "generateWallet demo_provider demo_wallet0 demo_rng = Inr (demo_wallet, \<lambda>k. demo_rng (k + 48))"
proof (cases "generateWallet demo_provider demo_wallet0 demo_rng")
  case (Inl e)
  then show ?thesis using demo_generate_fst by simp
next
  case (Inr x)
  obtain w' r' where x: "x = (w', r')" by (cases x)
  have w': "w' = demo_wallet" using demo_generate_fst Inr x by simp
  from generateWallet_Inr(4) [OF Inr [unfolded x]]
  have "r' = (\<lambda>j. demo_rng (j + 16 * nat (totalSigners demo_wallet0)))" .
  then have "r' = (\<lambda>k. demo_rng (k + 48))" by (simp add: demo_wallet0_def)
  then show ?thesis using Inr x w' by simp
qed

lemma demo_generate_again_fst:
  "map_sum id fst (generateWallet demo_provider demo_wallet demo_rng) = Inr demo_wallet_again"
  by code_simp

lemma demo_generateWallet_again:
  "generateWallet demo_provider demo_wallet demo_rng
     = Inr (demo_wallet_again, \<lambda>k. demo_rng (k + 48))"
proof (cases "generateWallet demo_provider demo_wallet demo_rng")
  case (Inl e)
  then show ?thesis using demo_generate_again_fst by simp
next
  case (Inr x)
  obtain w' r' where x: "x = (w', r')" by (cases x)
  have w': "w' = demo_wallet_again" using demo_generate_again_fst Inr x by simp
  from generateWallet_Inr(4) [OF Inr [unfolded x]]
  have "r' = (\<lambda>j. demo_rng (j + 16 * nat (totalSigners demo_wallet)))" .
  then have "r' = (\<lambda>k. demo_rng (k + 48))" by (simp add: demo_wallet_def demo_wallet0_def)
  then show ?thesis using Inr x w' by simp
qed

lemma demo_keyPair_fst:
  "map_sum id fst (generateKeyPair demo_provider demo_wallet0 0 demo_rng) = Inr demo_keyPair0"
  "map_sum id fst (generateKeyPair demo_provider demo_wallet0 1 (\<lambda>j. demo_rng (j + 16)))
     = Inr demo_keyPair1"
  by code_simp+

lemma demo_generateKeyPair0:
  "generateKeyPair demo_provider demo_wallet0 0 demo_rng
     = Inr (demo_keyPair0, \<lambda>k. demo_rng (k + 16))"
proof (cases "generateKeyPair demo_provider demo_wallet0 0 demo_rng")
  case (Inl e)
  then show ?thesis using demo_keyPair_fst(1) by simp
next
  case (Inr x)
  obtain kp r' where x: "x = (kp, r')" by (cases x)
  have "kp = demo_keyPair0" using demo_keyPair_fst(1) Inr x by simp
  moreover have "r' = (\<lambda>k. demo_rng (k + 16))"
    using generateKeyPair_Inr(3) [OF Inr [unfolded x]] .
  ultimately show ?thesis using Inr x by simp
qed

lemma demo_generateKeyPair1:
  "generateKeyPair demo_provider demo_wallet0 1 (\<lambda>j. demo_rng (j + 16 * 1))
     = Inr (demo_keyPair1, \<lambda>j. demo_rng (j + 16 * Suc 1))"
proof (cases "generateKeyPair demo_provider demo_wallet0 1 (\<lambda>j. demo_rng (j + 16))")
  case (Inl e)
  then show ?thesis using demo_keyPair_fst(2) by simp
next
  case (Inr x)
  obtain kp r' where x: "x = (kp, r')" by (cases x)
  have "kp = demo_keyPair1" using demo_keyPair_fst(2) Inr x by simp
  moreover have "r' = (\<lambda>k. demo_rng (k + 16 + 16))"
    using generateKeyPair_Inr(3) [OF Inr [unfolded x]] .
  ultimately show ?thesis using Inr x by (simp add: ac_simps)
qed

section \<open>The claims\<close>

lemma constructor_rejects_required_above_total:
  "n < m \<Longrightarrow> constructor m n cfg = Inl (Error ''Invalid signature requirements'')"
  by (simp add: constructor_def)

text \<open>
  Claim C3: construction must fail for every policy with \<open>m > n\<close>, \<open>m < 1\<close> or \<open>n < 1\<close>.
  The constructor compares the two numbers only: every pair with \<open>m \<le> n\<close> is accepted
  and stored as given, also when \<open>m\<close> or \<open>n\<close> is zero or negative. (The pairs with
  \<open>m > n\<close> are rejected, see \<open>constructor_rejects_required_above_total\<close>.)
\<close>

theorem constructor_checks_only_required_above_total:
  assumes "m \<le> n"
  shows "constructor m n cfg =
     Inr \<lparr>requiredSignatures = m, totalSigners = n, wnetwork = networks_testnet,
          derivationPath =
            (case cfg_derivationPath cfg of
               None \<Rightarrow> ''m/49'/0'/0'/0''
             | Some d \<Rightarrow> if d = [] then ''m/49'/0'/0'/0'' else d),
          keyPairs = [], redeemScript = None, addresses = None\<rparr>"
  using assms by (simp add: constructor_def)

theorem constructor_checks_only_required_above_total_witness:
  "constructor 0 3 demo_config =
     Inr \<lparr>requiredSignatures = 0, totalSigners = 3, wnetwork = networks_testnet,
          derivationPath = ''m/49'/0'/0'/0'', keyPairs = [], redeemScript = None,
          addresses = None\<rparr>
   \<and> constructor (- 1) 3 demo_config =
     Inr \<lparr>requiredSignatures = - 1, totalSigners = 3, wnetwork = networks_testnet,
          derivationPath = ''m/49'/0'/0'/0'', keyPairs = [], redeemScript = None,
          addresses = None\<rparr>
   \<and> constructor 0 0 demo_config =
     Inr \<lparr>requiredSignatures = 0, totalSigners = 0, wnetwork = networks_testnet,
          derivationPath = ''m/49'/0'/0'/0'', keyPairs = [], redeemScript = None,
          addresses = None\<rparr>"
  using constructor_checks_only_required_above_total [of 0 3 demo_config]
    constructor_checks_only_required_above_total [of "- 1" 3 demo_config]
    constructor_checks_only_required_above_total [of 0 0 demo_config]
  by (simp add: demo_config_def)

text \<open>
  Claim C10: on a wallet on which \<^verbatim>\<open>generateWallet\<close> has not run, that is, on a wallet as the
  constructor returns it, \<^verbatim>\<open>getRedeemScript\<close> throws the error "Redeem script not initialized"
  and \<^verbatim>\<open>getAddresses\<close> returns \<^verbatim>\<open>undefined\<close>; after a successful \<^verbatim>\<open>generateWallet\<close>, on whatever
  wallet it was called (a fresh one or one generated before), \<^verbatim>\<open>getRedeemScript\<close> returns the
  cached script without an error.
\<close>

theorem redeem_script_and_addresses_need_generateWallet:
  "(constructor m n cfg = Inr w \<longrightarrow>
      getRedeemScript w = Inl (Error ''Redeem script not initialized'') \<and>
      getAddresses w = None) \<and>
   (generateWallet p v r = Inr (v', r') \<longrightarrow>
      (\<exists>script. redeemScript v' = Some script \<and> getRedeemScript v' = Inr script))"
proof (intro conjI impI)
  assume c: "constructor m n cfg = Inr w"
  have fresh: "redeemScript w = None" "addresses w = None"
    using constructor_Inr [OF c] by simp_all
  show "getRedeemScript w = Inl (Error ''Redeem script not initialized'')"
    using fresh by (simp add: getRedeemScript_def)
  show "getAddresses w = None"
    using fresh by (simp add: getAddresses_def)
next
  assume g: "generateWallet p v r = Inr (v', r')"
  show "\<exists>script. redeemScript v' = Some script \<and> getRedeemScript v' = Inr script"
    using generateWallet_Inr(6) [OF g] by (simp add: getRedeemScript_def)
qed

theorem redeem_script_and_addresses_need_generateWallet_witness:
  "constructor 2 3 demo_config = Inr demo_wallet0 \<and>
   getRedeemScript demo_wallet0 = Inl (Error ''Redeem script not initialized'') \<and>
   getAddresses demo_wallet0 = None \<and>
   generateWallet demo_provider demo_wallet0 demo_rng = Inr (demo_wallet, \<lambda>k. demo_rng (k + 48)) \<and>
   redeemScript demo_wallet = Some demo_redeemScript \<and>
   getRedeemScript demo_wallet = Inr demo_redeemScript \<and>
   generateWallet demo_provider demo_wallet demo_rng
     = Inr (demo_wallet_again, \<lambda>k. demo_rng (k + 48)) \<and>
   redeemScript demo_wallet_again = Some demo_redeemScript \<and>
   getRedeemScript demo_wallet_again = Inr demo_redeemScript"
proof -
  note first = redeem_script_and_addresses_need_generateWallet
    [where m = 2 and n = 3 and cfg = demo_config and w = demo_wallet0 and p = demo_provider
       and v = demo_wallet0 and r = demo_rng and v' = demo_wallet
       and r' = "\<lambda>k. demo_rng (k + 48)"]
  note again = redeem_script_and_addresses_need_generateWallet
    [where m = 2 and n = 3 and cfg = demo_config and w = demo_wallet0 and p = demo_provider
       and v = demo_wallet and r = demo_rng and v' = demo_wallet_again
       and r' = "\<lambda>k. demo_rng (k + 48)"]
  have fresh: "getRedeemScript demo_wallet0 = Inl (Error ''Redeem script not initialized'')"
    "getAddresses demo_wallet0 = None"
    using first demo_constructor by blast+
  from first demo_generateWallet obtain s1 where
    s1: "redeemScript demo_wallet = Some s1" "getRedeemScript demo_wallet = Inr s1"
    by blast
  from again demo_generateWallet_again obtain s2 where
    s2: "redeemScript demo_wallet_again = Some s2" "getRedeemScript demo_wallet_again = Inr s2"
    by blast
  have "s1 = demo_redeemScript" using s1(1) by (simp add: demo_wallet_def)
  moreover have "s2 = demo_redeemScript"
    using s2(1) by (simp add: demo_wallet_again_def demo_wallet_def)
  ultimately show ?thesis
    using demo_constructor fresh demo_generateWallet demo_generateWallet_again s1 s2
    by simp
qed

text \<open>
  Claim C1: after \<^verbatim>\<open>generateWallet\<close> the cached redeem script should decompile to the
  \<open>n + 3\<close> elements \<open>OP_m, pk\<^sub>0, \<dots>, pk\<^sub>n\<^sub>-\<^sub>1, OP_n, OP_CHECKMULTISIG\<close>. What the code caches is
  the pay-to-public-key-hash template of the first public key alone: whenever generation
  succeeds (the key hash having its 20 bytes), the script decompiles to the five elements
  \<open>OP_DUP, OP_HASH160, hash, OP_EQUALVERIFY, OP_CHECKSIG\<close>, whatever \<open>m\<close> and \<open>n\<close> are, and
  so never to the sequence of the specification.
\<close>

theorem redeem_script_is_single_key_template:
  assumes "constructor m n cfg = Inr w"
    and "generateWallet p w r = Inr (w', r')"
    and "length (hash160 p (hd (getPublicKeys w'))) = 20"
  shows "\<exists>script. getRedeemScript w' = Inr script \<and>
           decompile script =
             Some [Op OP_DUP, Op OP_HASH160, Data (hash160 p (hd (getPublicKeys w'))),
                   Op OP_EQUALVERIFY, Op OP_CHECKSIG] \<and>
           decompile script \<noteq> Some (spec_redeemChunks m (getPublicKeys w') n)"
proof -
  have "last [Op OP_DUP, Op OP_HASH160, Data (hash160 p (hd (getPublicKeys w'))),
              Op OP_EQUALVERIFY, Op OP_CHECKSIG]
        \<noteq> last (spec_redeemChunks m (getPublicKeys w') n)"
    by (simp add: spec_redeemChunks_def opcode_defs)
  then have differ: "[Op OP_DUP, Op OP_HASH160, Data (hash160 p (hd (getPublicKeys w'))),
              Op OP_EQUALVERIFY, Op OP_CHECKSIG]
        \<noteq> spec_redeemChunks m (getPublicKeys w') n"
    by metis
  have rs: "redeemScript w' =
      Some (compile [Op OP_DUP, Op OP_HASH160, Data (hash160 p (hd (getPublicKeys w'))),
                     Op OP_EQUALVERIFY, Op OP_CHECKSIG])"
    using generateWallet_Inr(6) [OF assms(2)] by (simp add: getPublicKeys_def)
  show ?thesis
    using rs decompile_p2pkh [OF assms(3)] differ by (simp add: getRedeemScript_def)
qed

theorem redeem_script_is_single_key_template_witness:
  "constructor 2 3 demo_config = Inr demo_wallet0 \<and>
   generateWallet demo_provider demo_wallet0 demo_rng = Inr (demo_wallet, \<lambda>k. demo_rng (k + 48)) \<and>
   length (getPublicKeys demo_wallet) = 3 \<and>
   getRedeemScript demo_wallet = Inr demo_redeemScript \<and>
   decompile demo_redeemScript =
     Some [Op OP_DUP, Op OP_HASH160,
           Data [2, 97, 32, 109, 32, 113, 32, 109, 32, 116, 32, 99, 32, 120, 32, 103, 32,
                 107, 32, 114],
           Op OP_EQUALVERIFY, Op OP_CHECKSIG] \<and>
   decompile demo_redeemScript \<noteq> Some (spec_redeemChunks 2 (getPublicKeys demo_wallet) 3)"
proof -
  have h: "hash160 demo_provider (hd (getPublicKeys demo_wallet)) =
      [2, 97, 32, 109, 32, 113, 32, 109, 32, 116, 32, 99, 32, 120, 32, 103, 32, 107, 32, 114]"
    by (simp add: demo_provider_def getPublicKeys_def demo_wallet_def demo_keyPair0_def)
  then have len: "length (hash160 demo_provider (hd (getPublicKeys demo_wallet))) = 20"
    by simp
  have rs: "getRedeemScript demo_wallet = Inr demo_redeemScript"
    by (simp add: getRedeemScript_def demo_wallet_def)
  have n: "length (getPublicKeys demo_wallet) = 3"
    by (simp add: getPublicKeys_def demo_wallet_def)
  from redeem_script_is_single_key_template [OF demo_constructor demo_generateWallet len]
  obtain script where
    s: "getRedeemScript demo_wallet = Inr script" and
    dec: "decompile script =
      Some [Op OP_DUP, Op OP_HASH160, Data (hash160 demo_provider (hd (getPublicKeys demo_wallet))),
            Op OP_EQUALVERIFY, Op OP_CHECKSIG]" and
    differ: "decompile script \<noteq> Some (spec_redeemChunks 2 (getPublicKeys demo_wallet) 3)"
    by blast
  have script: "script = demo_redeemScript" using s rs by simp
  show ?thesis
    using demo_constructor demo_generateWallet rs n dec [unfolded script h]
      differ [unfolded script]
    by blast
qed

lemma length_numberToString: "0 < length (numberToString n)"
  by (subst numberToString.simps) simp

lemma split_space_nonempty: "split_space s \<noteq> []"
  by (induction s) (auto split: list.splits)

lemma split_space_word:
  "CHR '' '' \<notin> set w \<Longrightarrow> split_space (w @ CHR '' '' # s) = w # split_space s"
  by (induction w) (auto split: list.splits simp: split_space_nonempty)

lemma split_space_single: "CHR '' '' \<notin> set w \<Longrightarrow> split_space w = [w]"
  by (induction w) (auto split: list.splits)

lemma split_space_joinWords:
  assumes "ws \<noteq> []" and "\<forall>w \<in> set ws. CHR '' '' \<notin> set w"
  shows "split_space (joinWords ws) = ws"
  using assms
proof (induction ws rule: joinWords.induct)
  case 1
  then show ?case by simp
next
  case (2 w)
  then show ?case by (simp add: split_space_single)
next
  case (3 w v ws)
  then show ?case by (simp add: split_space_word)
qed

lemma mnemonicWords_in_wordlist: "set (mnemonicWords p e) \<subseteq> range (wordlist p)"
  by (auto simp: mnemonicWords_def)

text \<open>
  Claim C5: the path recorded for signer slot \<open>i\<close>, and returned by \<^verbatim>\<open>getDerivationPaths\<close>,
  should be \<^verbatim>\<open>m/48'/0'/0'/2'/i\<close>. The code records the decimal digits of the index and
  nothing else: the paths of a generated wallet are \<^verbatim>\<open>"0", "1", \<dots>\<close>, and they are not the
  paths of the template.
\<close>

theorem derivation_paths_are_bare_indices:
  assumes "constructor m n cfg = Inr w" and "generateWallet p w r = Inr (w', r')"
  shows "getDerivationPaths w' = map numberToString [0..<nat n] \<and>
         getDerivationPaths w' \<noteq>
           map (\<lambda>i. ''m/48'/0'/0'/2'/'' @ numberToString i) [0..<nat n]"
proof -
  have w: "keyPairs w = []" "totalSigners w = n"
    using constructor_Inr [OF assms(1)] by simp_all
  have len: "length (keyPairs w') = nat n"
    using generateWallet_Inr(2) [OF assms(2)] w by simp
  have nth: "path (keyPairs w' ! k) = numberToString k" if "k < nat n" for k
  proof -
    have "generateKeyPair p w k (\<lambda>j. r (j + 16 * k))
            = Inr (keyPairs w' ! k, \<lambda>j. r (j + 16 * Suc k))"
      using generateWallet_Inr_nth [OF assms(2), of k] that w by simp
    then show ?thesis by (rule generateKeyPair_Inr(1))
  qed
  have paths: "getDerivationPaths w' = map numberToString [0..<nat n]"
    by (rule nth_equalityI) (simp_all add: getDerivationPaths_def len nth)
  have "0 < length (keyPairs w')"
    using generateWallet_Inr(1) [OF assms(2)] by simp
  then have pos: "0 < nat n" by (simp only: len)
  have "map numberToString [0..<nat n] ! 0 \<noteq>
        map (\<lambda>i. ''m/48'/0'/0'/2'/'' @ numberToString i) [0..<nat n] ! 0"
    using pos by simp
  then have "map numberToString [0..<nat n] \<noteq>
        map (\<lambda>i. ''m/48'/0'/0'/2'/'' @ numberToString i) [0..<nat n]"
    by metis
  then show ?thesis using paths by simp
qed

theorem derivation_paths_are_bare_indices_witness:
  "constructor 2 3 demo_config = Inr demo_wallet0 \<and>
   generateWallet demo_provider demo_wallet0 demo_rng = Inr (demo_wallet, \<lambda>k. demo_rng (k + 48)) \<and>
   getDerivationPaths demo_wallet = [''0'', ''1'', ''2''] \<and>
   getDerivationPaths demo_wallet \<noteq> [''m/48'/0'/0'/2'/0'', ''m/48'/0'/0'/2'/1'', ''m/48'/0'/0'/2'/2'']"
proof -
  have ns: "map numberToString [0..<nat 3] = [''0'', ''1'', ''2'']"
    by (simp add: upt_rec numberToString.simps digitChar_def)
  have "getDerivationPaths demo_wallet = [''0'', ''1'', ''2'']"
    using derivation_paths_are_bare_indices [OF demo_constructor demo_generateWallet]
    by (simp only: ns)
  then show ?thesis
    using demo_constructor demo_generateWallet by simp
qed

text \<open>
  Claim C6: every mnemonic should rest on 256 bits of entropy and have 24 words. The code
  asks for strength 128: each key pair draws 16 bytes from the random source and its
  mnemonic is the join of exactly 12 entries of the word list, so that splitting it at the
  spaces gives 12 words (no entry of the word list containing a space).
\<close>

theorem mnemonic_has_twelve_words:
  assumes "generateKeyPair p w i r = Inr (kp, r')"
    and "\<forall>k. CHR '' '' \<notin> set (wordlist p k)"
  shows "length (fst (randomBytes 16 r)) * 8 = 128 \<and>
         mnemonic kp = joinWords (mnemonicWords p (fst (randomBytes 16 r))) \<and>
         length (mnemonicWords p (fst (randomBytes 16 r))) = 12 \<and>
         length (split_space (mnemonic kp)) = 12"
proof -
  let ?e = "fst (randomBytes 16 r)"
  have e: "?e = map r [0..<16]" by (simp add: randomBytes_def)
  have len: "length ?e = 16" by (simp add: e)
  have m: "mnemonic kp = joinWords (mnemonicWords p ?e)"
    using generateKeyPair_Inr(2) [OF assms(1)] by (simp only: e)
  have twelve: "length (mnemonicWords p ?e) = 12"
    by (rule length_mnemonicWords_16 [OF len])
  then have ne: "mnemonicWords p ?e \<noteq> []" by auto
  have nosp: "\<forall>w \<in> set (mnemonicWords p ?e). CHR '' '' \<notin> set w"
    using mnemonicWords_in_wordlist [of p ?e] assms(2) by blast
  have "split_space (mnemonic kp) = mnemonicWords p ?e"
    by (simp only: m split_space_joinWords [OF ne nosp])
  then show ?thesis using len m twelve by simp
qed

theorem mnemonic_has_twelve_words_witness:
  "generateKeyPair demo_provider demo_wallet0 0 demo_rng
     = Inr (demo_keyPair0, \<lambda>k. demo_rng (k + 16)) \<and>
   mnemonic demo_keyPair0 = ''a m q m t c x g k r u g'' \<and>
   length (fst (randomBytes 16 demo_rng)) * 8 = 128 \<and>
   length (mnemonicWords demo_provider (fst (randomBytes 16 demo_rng))) = 12 \<and>
   length (split_space (mnemonic demo_keyPair0)) = 12"
proof -
  have "CHR '' '' \<notin> set (wordlist demo_provider k)" for k
  proof -
    have "''abcdefghijklmnopqrstuvwxyz'' ! (k mod 26) \<in> set ''abcdefghijklmnopqrstuvwxyz''"
      by (rule nth_mem) simp
    then show ?thesis by (auto simp: demo_provider_def)
  qed
  then have nosp: "\<forall>k. CHR '' '' \<notin> set (wordlist demo_provider k)" by blast
  note t = mnemonic_has_twelve_words [OF demo_generateKeyPair0 nosp]
  have m: "mnemonic demo_keyPair0 = ''a m q m t c x g k r u g''"
    by (simp add: demo_keyPair0_def)
  from t have "length (fst (randomBytes 16 demo_rng)) * 8 = 128"
    and "length (mnemonicWords demo_provider (fst (randomBytes 16 demo_rng))) = 12"
    and "length (split_space (mnemonic demo_keyPair0)) = 12"
    by blast+
  with demo_generateKeyPair0 m show ?thesis by blast
qed

text \<open>
  Claim C7: the public keys returned by the wallet should be in byte-lexicographic order,
  whatever the order of generation. The code never sorts: the \<open>k\<close>-th key returned by
  \<^verbatim>\<open>getPublicKeys\<close> is the key generated for slot \<open>k\<close>.
\<close>

theorem public_keys_keep_generation_order:
  assumes "constructor m n cfg = Inr w" and "generateWallet p w r = Inr (w', r')"
    and "k < nat n"
  shows "length (getPublicKeys w') = nat n \<and>
         (\<exists>kp. generateKeyPair p w k (\<lambda>j. r (j + 16 * k))
                  = Inr (kp, \<lambda>j. r (j + 16 * Suc k)) \<and>
               getPublicKeys w' ! k = publicKey kp)"
proof -
  have w: "keyPairs w = []" "totalSigners w = n"
    using constructor_Inr [OF assms(1)] by simp_all
  have len: "length (keyPairs w') = nat n"
    using generateWallet_Inr(2) [OF assms(2)] w by simp
  have "generateKeyPair p w k (\<lambda>j. r (j + 16 * k))
          = Inr (keyPairs w' ! k, \<lambda>j. r (j + 16 * Suc k))"
    using generateWallet_Inr_nth [OF assms(2), of k] assms(3) w by simp
  moreover have "getPublicKeys w' ! k = publicKey (keyPairs w' ! k)"
    using assms(3) len by (simp add: getPublicKeys_def)
  ultimately show ?thesis using len by (simp add: getPublicKeys_def)
qed

theorem public_keys_keep_generation_order_witness:
  "constructor 2 3 demo_config = Inr demo_wallet0 \<and>
   generateWallet demo_provider demo_wallet0 demo_rng = Inr (demo_wallet, \<lambda>k. demo_rng (k + 48)) \<and>
   generateKeyPair demo_provider demo_wallet0 1 (\<lambda>j. demo_rng (j + 16 * 1))
     = Inr (demo_keyPair1, \<lambda>j. demo_rng (j + 16 * Suc 1)) \<and>
   getPublicKeys demo_wallet ! 1 = publicKey demo_keyPair1 \<and>
   getPublicKeys demo_wallet
     = [publicKey demo_keyPair0, publicKey demo_keyPair1, publicKey demo_keyPair2] \<and>
   \<not> bytes_le (publicKey demo_keyPair1) (publicKey demo_keyPair2)"
proof -
  have k: "(1::nat) < nat 3" by simp
  have "\<not> bytes_le (publicKey demo_keyPair1) (publicKey demo_keyPair2)"
    by (simp add: demo_keyPair1_def demo_keyPair2_def)
  then show ?thesis
    using public_keys_keep_generation_order [OF demo_constructor demo_generateWallet k]
      demo_constructor demo_generateWallet demo_generateKeyPair1
    by (simp add: getPublicKeys_def demo_wallet_def)
qed

text \<open>
  Claim C9: the addresses should carry the prefixes of the network given at construction.
  The constructor does not read the network of its configuration: every wallet is a
  test-network wallet, its \<^verbatim>\<open>p2sh\<close> address is encoded with the script version byte 196 and
  its \<^verbatim>\<open>p2wsh\<close> address begins with \<^verbatim>\<open>tb1\<close>, also when the production network was asked for.
\<close>

theorem addresses_always_use_testnet:
  assumes "constructor m n cfg = Inr w" and "generateWallet p w r = Inr (w', r')"
  shows "wnetwork w' = networks_testnet \<and>
         (\<exists>a script. getAddresses w' = Some a \<and> getRedeemScript w' = Inr script \<and>
            p2sh a = bs58check_encode p (196 # hash160 p script) \<and>
            take 3 (p2wsh a) = ''tb1'')"
proof -
  have net: "wnetwork w = networks_testnet"
    using constructor_Inr [OF assms(1)] by simp
  show ?thesis
    using generateWallet_Inr(5,6,7) [OF assms(2)]
    by (simp add: net getAddresses_def getRedeemScript_def p2sh_address_def
        p2wsh_address_def networks_testnet_def)
qed

theorem addresses_always_use_testnet_witness:
  "constructor 2 3 mainnet_config = Inr demo_wallet0 \<and>
   cfg_network mainnet_config = Some networks_bitcoin \<and>
   generateWallet demo_provider demo_wallet0 demo_rng = Inr (demo_wallet, \<lambda>k. demo_rng (k + 48)) \<and>
   wnetwork demo_wallet = networks_testnet \<and>
   getAddresses demo_wallet = Some \<lparr>p2sh = ''x'', p2wsh = ''tb1q''\<rparr> \<and>
   take 3 (p2wsh (the (getAddresses demo_wallet))) = ''tb1''"
  using addresses_always_use_testnet [OF demo_constructor_mainnet demo_generateWallet]
    demo_constructor_mainnet demo_generateWallet
  by (auto simp: mainnet_config_def getAddresses_def demo_wallet_def)

lemma sighash_none_bits: "SIGHASH_NONE AND 31 = SIGHASH_NONE" "SIGHASH_NONE \<noteq> SIGHASH_SINGLE"
  "SIGHASH_NONE AND SIGHASH_ANYONECANPAY = 0" "SIGHASH_NONE \<noteq> SIGHASH_ALL"
  by (simp_all add: SIGHASH_NONE_def SIGHASH_SINGLE_def SIGHASH_ANYONECANPAY_def SIGHASH_ALL_def)

lemma hashForSignature_NONE:
  "hashForSignature p t i (Some rs) SIGHASH_NONE =
     (if i < 0 \<or> 2 ^ 32 \<le> i then Inl TypeError
      else if nat i \<ge> length (ins t) then Inr ONE
      else (case decompile rs of
              None \<Rightarrow> Inl TypeError
            | Some chunks \<Rightarrow>
                Inr (hash256 p (tx_toBuffer p
                  (t\<lparr>outs := [],
                     ins := (map (\<lambda>input. input\<lparr>in_script := []\<rparr>)
                               (zeroOtherSequences (nat i) (ins t)))
                        [nat i := (zeroOtherSequences (nat i) (ins t) ! nat i)
                           \<lparr>in_script :=
                              compile (filter (\<lambda>x. x \<noteq> Op OP_CODESEPARATOR) chunks)\<rparr>]\<rparr>)
                  @ le_bytes 4 SIGHASH_NONE))))"
  by (simp add: hashForSignature_def sighash_none_bits Let_def split: option.splits)

lemma hashForSignature_NONE_outs:
  "hashForSignature p (t\<lparr>outs := os\<rparr>) i (Some rs) SIGHASH_NONE
     = hashForSignature p t i (Some rs) SIGHASH_NONE"
  by (simp add: hashForSignature_NONE split: option.splits)

lemma signTransaction_Inr:
  assumes "signTransaction p w txHex i kp = (Inr hex, calls)"
  shows "\<exists>t rs sk d. tx_fromHex p txHex = Some t \<and> redeemScript w = Some rs \<and>
           privateKey kp = Some sk \<and> isPrivate p sk \<and>
           hashForSignature p t i (Some rs) SIGHASH_NONE = Inr d \<and>
           0 \<le> i \<and> nat i < length (ins t) \<and>
           hex = tx_toHex p (t\<lparr>ins := (ins t)[nat i := (ins t ! nat i)
                   \<lparr>in_script := compile [Data (ecSign p sk d), Data (publicKey kp)]\<rparr>]\<rparr>) \<and>
           calls = [CallHashForSignature, CallSign]"
proof -
  from assms obtain t where t: "tx_fromHex p txHex = Some t"
    by (auto simp: signTransaction_def split: option.splits)
  from assms t obtain d where d: "hashForSignature p t i (redeemScript w) SIGHASH_NONE = Inr d"
    by (auto simp: signTransaction_def Let_def split: sum.splits)
  then obtain rs where rs: "redeemScript w = Some rs"
    by (cases "redeemScript w") (auto simp: hashForSignature_def split: if_splits)
  from assms t d obtain sk where sk: "privateKey kp = Some sk"
    by (auto simp: signTransaction_def Let_def split: option.splits)
  from assms t d sk have priv: "isPrivate p sk"
    by (auto simp: signTransaction_def Let_def split: if_splits)
  from assms t d sk priv obtain t' where
    t': "setInputScript t i (compile [Data (ecSign p sk d), Data (publicKey kp)]) = Inr t'"
    and res: "hex = tx_toHex p t'" "calls = [CallHashForSignature, CallSign]"
    by (auto simp: signTransaction_def Let_def split: sum.splits)
  from t' have "0 \<le> i" "nat i < length (ins t)"
    "t' = t\<lparr>ins := (ins t)[nat i := (ins t ! nat i)
                   \<lparr>in_script := compile [Data (ecSign p sk d), Data (publicKey kp)]\<rparr>]\<rparr>"
    by (auto simp: setInputScript_def split: if_splits)
  with t rs sk priv d res show ?thesis by (simp add: rs)
qed

text \<open>
  Claim C2: the digest should be taken with \<^verbatim>\<open>SIGHASH_ALL\<close> and the signature element should
  be the DER encoding followed by the byte \<^verbatim>\<open>0x01\<close>. In the code every successful call
  signs the digest taken with \<^verbatim>\<open>SIGHASH_NONE\<close>, which is the same for any outputs put in
  place of the transaction's own, and the signature element is the value that the
  signing primitive returns, with no hash-type byte after it.
\<close>

theorem signTransaction_signs_with_sighash_none:
  assumes "signTransaction p w txHex i kp = (Inr hex, calls)"
  shows "\<exists>t rs sk d. tx_fromHex p txHex = Some t \<and> redeemScript w = Some rs \<and>
           privateKey kp = Some sk \<and>
           hashForSignature p t i (Some rs) SIGHASH_NONE = Inr d \<and>
           (\<forall>os. hashForSignature p (t\<lparr>outs := os\<rparr>) i (Some rs) SIGHASH_NONE = Inr d) \<and>
           hex = tx_toHex p (t\<lparr>ins := (ins t)[nat i := (ins t ! nat i)
                   \<lparr>in_script := compile [Data (ecSign p sk d), Data (publicKey kp)]\<rparr>]\<rparr>)"
proof -
  from signTransaction_Inr [OF assms] obtain t rs sk d where
    "tx_fromHex p txHex = Some t" "redeemScript w = Some rs" "privateKey kp = Some sk"
    "hashForSignature p t i (Some rs) SIGHASH_NONE = Inr d"
    "hex = tx_toHex p (t\<lparr>ins := (ins t)[nat i := (ins t ! nat i)
                   \<lparr>in_script := compile [Data (ecSign p sk d), Data (publicKey kp)]\<rparr>]\<rparr>)"
    by blast
  then show ?thesis
    by (intro exI [of _ t] exI [of _ rs] exI [of _ sk] exI [of _ d])
       (simp add: hashForSignature_NONE_outs)
qed

lemma demo_decompile:
  "decompile demo_redeemScript =
     Some [Op OP_DUP, Op OP_HASH160,
           Data [2, 97, 32, 109, 32, 113, 32, 109, 32, 116, 32, 99, 32, 120, 32, 103, 32,
                 107, 32, 114],
           Op OP_EQUALVERIFY, Op OP_CHECKSIG]"
  by (simp add: decompile.simps demo_redeemScript_def opcode_defs pushdata_decode_def
      asMinimalOP_def)

lemma demo_fromHex: "tx_fromHex demo_provider ''dummyTx'' = Some demo_tx"
  by (simp add: demo_provider_def)

lemma demo_hash:
  "hashForSignature demo_provider demo_tx 0 (Some demo_redeemScript) SIGHASH_NONE
     = Inr demo_digest"
  by (simp only: hashForSignature_NONE demo_decompile, code_simp)

lemma demo_hash_999:
  "hashForSignature demo_provider demo_tx 999 (Some demo_redeemScript) SIGHASH_NONE = Inr ONE"
  by (simp add: hashForSignature_NONE demo_tx_def)

lemma demo_ecSign:
  "ecSign demo_provider
     [97, 32, 109, 32, 113, 32, 109, 32, 116, 32, 99, 32, 120, 32, 103, 32,
      107, 32, 114, 32, 117, 32, 103, 0, 0, 0, 0, 0, 0, 0, 0, 0] demo_digest = demo_signature"
  by code_simp

lemma demo_sign:
  "signTransaction demo_provider demo_wallet ''dummyTx'' 0 demo_keyPair0
     = (Inr ''signed'', [CallHashForSignature, CallSign])"
  by (simp add: signTransaction_def demo_fromHex demo_hash demo_wallet_def demo_keyPair0_def
      setInputScript_def)
     (simp add: demo_provider_def demo_tx_def)

lemma demo_setInputScript:
  "setInputScript demo_tx 999 script = Inl TypeError"
  by (simp add: setInputScript_def demo_tx_def)

theorem signTransaction_signs_with_sighash_none_witness:
  "signTransaction demo_provider demo_wallet ''dummyTx'' 0 demo_keyPair0
     = (Inr ''signed'', [CallHashForSignature, CallSign]) \<and>
   tx_fromHex demo_provider ''dummyTx'' = Some demo_tx \<and>
   redeemScript demo_wallet = Some demo_redeemScript \<and>
   hashForSignature demo_provider demo_tx 0 (Some demo_redeemScript) SIGHASH_NONE
     = Inr demo_digest \<and>
   hashForSignature demo_provider (demo_tx\<lparr>outs := []\<rparr>) 0 (Some demo_redeemScript) SIGHASH_NONE
     = Inr demo_digest \<and>
   SIGHASH_NONE = 2 \<and> SIGHASH_ALL = 1"
proof -
  from signTransaction_signs_with_sighash_none [OF demo_sign] obtain t rs sk d where
    t: "tx_fromHex demo_provider ''dummyTx'' = Some t" and
    rs: "redeemScript demo_wallet = Some rs" and
    d: "hashForSignature demo_provider t 0 (Some rs) SIGHASH_NONE = Inr d" and
    os: "\<forall>os. hashForSignature demo_provider (t\<lparr>outs := os\<rparr>) 0 (Some rs) SIGHASH_NONE = Inr d"
    by blast
  have t': "t = demo_tx" using t demo_fromHex by simp
  have rs': "rs = demo_redeemScript" using rs by (simp add: demo_wallet_def)
  have d': "d = demo_digest" using d demo_hash by (simp add: t' rs')
  have "hashForSignature demo_provider (demo_tx\<lparr>outs := []\<rparr>) 0 (Some demo_redeemScript)
          SIGHASH_NONE = Inr demo_digest"
    using os by (simp add: t' rs' d')
  then show ?thesis
    using demo_sign demo_fromHex demo_hash rs rs'
    by (simp add: SIGHASH_NONE_def SIGHASH_ALL_def)
qed

text \<open>
  Claim C4: the unlocking script of a signed input should begin with \<^verbatim>\<open>OP_0\<close>, hold the
  DER signatures and end with the redeem script. The script that the code stores has two
  elements: the 64-byte signature as the signing primitive returns it, then the signer's
  public key.
\<close>

theorem signTransaction_script_is_signature_then_key:
  assumes "signTransaction p w txHex i kp = (Inr hex, calls)"
    and "length (publicKey kp) = 33"
    and "\<forall>sk d. length (ecSign p sk d) = 64"
  shows "\<exists>t rs sk d. tx_fromHex p txHex = Some t \<and> redeemScript w = Some rs \<and>
           privateKey kp = Some sk \<and>
           hashForSignature p t i (Some rs) SIGHASH_NONE = Inr d \<and>
           0 \<le> i \<and> nat i < length (ins t) \<and>
           hex = tx_toHex p (t\<lparr>ins := (ins t)[nat i := (ins t ! nat i)
                   \<lparr>in_script := compile [Data (ecSign p sk d), Data (publicKey kp)]\<rparr>]\<rparr>) \<and>
           decompile (compile [Data (ecSign p sk d), Data (publicKey kp)])
             = Some [Data (ecSign p sk d), Data (publicKey kp)]"
proof -
  from signTransaction_Inr [OF assms(1)] obtain t rs sk d where
    *: "tx_fromHex p txHex = Some t" "redeemScript w = Some rs" "privateKey kp = Some sk"
    "hashForSignature p t i (Some rs) SIGHASH_NONE = Inr d" "0 \<le> i" "nat i < length (ins t)"
    "hex = tx_toHex p (t\<lparr>ins := (ins t)[nat i := (ins t ! nat i)
                   \<lparr>in_script := compile [Data (ecSign p sk d), Data (publicKey kp)]\<rparr>]\<rparr>)"
    by blast
  have sg: "2 \<le> length (ecSign p sk d)" "length (ecSign p sk d) < 76"
    using assms(3) by simp_all
  have pk: "2 \<le> length (publicKey kp)" "length (publicKey kp) < 76"
    using assms(2) by simp_all
  have "decompile (compile [Data (ecSign p sk d), Data (publicKey kp)])
             = Some [Data (ecSign p sk d), Data (publicKey kp)]"
    by (rule decompile_two_pushes [OF sg pk])
  with * show ?thesis by blast
qed

theorem signTransaction_script_is_signature_then_key_witness:
  "signTransaction demo_provider demo_wallet ''dummyTx'' 0 demo_keyPair0
     = (Inr ''signed'', [CallHashForSignature, CallSign]) \<and>
   length (publicKey demo_keyPair0) = 33 \<and>
   tx_fromHex demo_provider ''dummyTx'' = Some demo_tx \<and>
   privateKey demo_keyPair0 = Some
     [97, 32, 109, 32, 113, 32, 109, 32, 116, 32, 99, 32, 120, 32, 103, 32,
      107, 32, 114, 32, 117, 32, 103, 0, 0, 0, 0, 0, 0, 0, 0, 0] \<and>
   hashForSignature demo_provider demo_tx 0 (Some demo_redeemScript) SIGHASH_NONE
     = Inr demo_digest \<and>
   ecSign demo_provider
     [97, 32, 109, 32, 113, 32, 109, 32, 116, 32, 99, 32, 120, 32, 103, 32,
      107, 32, 114, 32, 117, 32, 103, 0, 0, 0, 0, 0, 0, 0, 0, 0] demo_digest = demo_signature \<and>
   decompile (compile [Data demo_signature, Data (publicKey demo_keyPair0)])
     = Some [Data demo_signature, Data (publicKey demo_keyPair0)] \<and>
   Data demo_signature \<noteq> Op OP_0 \<and>
   Data (publicKey demo_keyPair0) \<noteq> Data demo_redeemScript"
proof -
  have len: "length (publicKey demo_keyPair0) = 33" by (simp add: demo_keyPair0_def)
  have sg: "\<forall>sk d. length (ecSign demo_provider sk d) = 64"
    by (simp add: demo_provider_def min_def)
  have sk0: "privateKey demo_keyPair0 = Some
     [97, 32, 109, 32, 113, 32, 109, 32, 116, 32, 99, 32, 120, 32, 103, 32,
      107, 32, 114, 32, 117, 32, 103, 0, 0, 0, 0, 0, 0, 0, 0, 0]"
    by (simp add: demo_keyPair0_def)
  from signTransaction_script_is_signature_then_key [OF demo_sign len sg]
  obtain t rs sk d where
    t: "tx_fromHex demo_provider ''dummyTx'' = Some t" and
    rs: "redeemScript demo_wallet = Some rs" and
    sk: "privateKey demo_keyPair0 = Some sk" and
    d: "hashForSignature demo_provider t 0 (Some rs) SIGHASH_NONE = Inr d" and
    dec: "decompile (compile [Data (ecSign demo_provider sk d), Data (publicKey demo_keyPair0)])
             = Some [Data (ecSign demo_provider sk d), Data (publicKey demo_keyPair0)]"
    by blast
  have t': "t = demo_tx" using t demo_fromHex by simp
  have rs': "rs = demo_redeemScript" using rs by (simp add: demo_wallet_def)
  have d': "d = demo_digest" using d demo_hash by (simp add: t' rs')
  have sk': "sk = [97, 32, 109, 32, 113, 32, 109, 32, 116, 32, 99, 32, 120, 32, 103, 32,
      107, 32, 114, 32, 117, 32, 103, 0, 0, 0, 0, 0, 0, 0, 0, 0]"
    using sk sk0 by simp
  have dec': "decompile (compile [Data demo_signature, Data (publicKey demo_keyPair0)])
     = Some [Data demo_signature, Data (publicKey demo_keyPair0)]"
    using dec by (simp only: sk' d' demo_ecSign)
  have ne: "Data (publicKey demo_keyPair0) \<noteq> Data demo_redeemScript"
    by (simp add: demo_keyPair0_def demo_redeemScript_def)
  show ?thesis
    using demo_sign len demo_fromHex sk0 demo_hash demo_ecSign dec' ne by simp
qed

text \<open>
  Claim C8: a missing private key and an input index out of range should be reported
  before any cryptographic work. In the code the digest is asked for first. Without a
  private key the error \<^verbatim>\<open>Private key not found\<close> follows the call of \<^verbatim>\<open>hashForSignature\<close>; with an
  index past the last input nothing is checked, the constant digest is signed, and the
  call ends in the runtime type error of \<^verbatim>\<open>setInputScript\<close>.
\<close>

theorem signTransaction_checks_come_after_hashing:
  assumes "tx_fromHex p txHex = Some t" and "redeemScript w = Some rs"
  shows "(privateKey kp = None \<and> hashForSignature p t i (Some rs) SIGHASH_NONE = Inr d \<longrightarrow>
            signTransaction p w txHex i kp
              = (Inl (Error ''Private key not found''), [CallHashForSignature])) \<and>
         (int (length (ins t)) \<le> i \<and> i < 2 ^ 32 \<and> privateKey kp = Some sk \<and> isPrivate p sk \<longrightarrow>
            signTransaction p w txHex i kp
              = (Inl TypeError, [CallHashForSignature, CallSign]))"
proof (intro conjI impI)
  assume "privateKey kp = None \<and> hashForSignature p t i (Some rs) SIGHASH_NONE = Inr d"
  then show "signTransaction p w txHex i kp
              = (Inl (Error ''Private key not found''), [CallHashForSignature])"
    using assms by (simp add: signTransaction_def)
next
  assume a: "int (length (ins t)) \<le> i \<and> i < 2 ^ 32 \<and> privateKey kp = Some sk \<and> isPrivate p sk"
  then have range: "0 \<le> i" "length (ins t) \<le> nat i" by linarith+
  have h: "hashForSignature p t i (Some rs) SIGHASH_NONE = Inr ONE"
    using a range by (simp add: hashForSignature_NONE)
  have s: "setInputScript t i script = Inl TypeError" for script
    using range by (simp add: setInputScript_def)
  show "signTransaction p w txHex i kp = (Inl TypeError, [CallHashForSignature, CallSign])"
    using assms a by (simp add: signTransaction_def h s)
qed

theorem signTransaction_checks_come_after_hashing_witness:
  "tx_fromHex demo_provider ''dummyTx'' = Some demo_tx \<and>
   redeemScript demo_wallet = Some demo_redeemScript \<and>
   privateKey (demo_keyPair0\<lparr>privateKey := None\<rparr>) = None \<and>
   hashForSignature demo_provider demo_tx 0 (Some demo_redeemScript) SIGHASH_NONE
     = Inr demo_digest \<and>
   signTransaction demo_provider demo_wallet ''dummyTx'' 0 (demo_keyPair0\<lparr>privateKey := None\<rparr>)
     = (Inl (Error ''Private key not found''), [CallHashForSignature]) \<and>
   int (length (ins demo_tx)) \<le> 999 \<and>
   signTransaction demo_provider demo_wallet ''dummyTx'' 999 demo_keyPair0
     = (Inl TypeError, [CallHashForSignature, CallSign])"
proof -
  have rs: "redeemScript demo_wallet = Some demo_redeemScript"
    by (simp add: demo_wallet_def)
  have sk0: "privateKey demo_keyPair0 = Some
     [97, 32, 109, 32, 113, 32, 109, 32, 116, 32, 99, 32, 120, 32, 103, 32,
      107, 32, 114, 32, 117, 32, 103, 0, 0, 0, 0, 0, 0, 0, 0, 0]"
    by (simp add: demo_keyPair0_def)
  have priv: "isPrivate demo_provider
     [97, 32, 109, 32, 113, 32, 109, 32, 116, 32, 99, 32, 120, 32, 103, 32,
      107, 32, 114, 32, 117, 32, 103, 0, 0, 0, 0, 0, 0, 0, 0, 0]"
    by (simp add: demo_provider_def)
  have n: "int (length (ins demo_tx)) \<le> 999" by (simp add: demo_tx_def)
  show ?thesis
    using signTransaction_checks_come_after_hashing
        [where kp = "demo_keyPair0\<lparr>privateKey := None\<rparr>" and i = 0 and d = demo_digest,
         OF demo_fromHex rs]
      signTransaction_checks_come_after_hashing
        [where kp = demo_keyPair0 and i = 999 and sk =
          "[97, 32, 109, 32, 113, 32, 109, 32, 116, 32, 99, 32, 120, 32, 103, 32,
            107, 32, 114, 32, 117, 32, 103, 0, 0, 0, 0, 0, 0, 0, 0, 0]",
         OF demo_fromHex rs]
      demo_fromHex rs demo_hash sk0 priv n
    by simp
qed

end
